theory Spec2Isabelle
  imports Complex_Main "HOL-Library.Log_Nat"
begin

section \<open>Values exchanged with the registry contract\<close>

text \<open>
  The file \<^verbatim>\<open>src/cli/contracts/agent.registry.ts\<close> is a facade over an ethers
  \<^verbatim>\<open>Contract\<close>. The record below is the TypeScript type \<^verbatim>\<open>AgentDescription\<close>.
\<close>

record AgentDescription =
  created :: bool
  owner :: string
  metadata :: string

text \<open>
  Of a \<^verbatim>\<open>Wallet\<close> the facade reads \<^verbatim>\<open>address\<close> and calls \<^verbatim>\<open>connect\<close>; the key
  material stays inside the library.
\<close>

record Wallet =
  address :: string

text \<open>
  Values a JavaScript promise can reject with. \<open>TypeError\<close> is raised by the runtime on a
  property access on \<^verbatim>\<open>undefined\<close>; \<open>EthersError code\<close> is an error raised inside the
  ethers library, identified by its \<^verbatim>\<open>code\<close>; \<open>PlainError msg\<close> is \<^verbatim>\<open>new Error(msg)\<close>.
  The last four constructors are the error classes named in section 7 of the
  specification. No function of the source constructs them; they are here so that
  statements can compare what the code rejects with to what the specification names.
\<close>

datatype thrown =
    TypeError
  | EthersError string
  | PlainError string
  | MissingSignerError
  | EstimationError thrown
  | SubmissionError thrown
  | ConfirmationError thrown

text \<open>
  The third argument of \<^verbatim>\<open>new ethers.Contract(address, abi, signerOrProvider)\<close>: either the
  bare JSON-RPC provider, or a wallet connected to it.
\<close>

datatype runner = Provider | Signer Wallet

text \<open>
  A method of the contract together with its positional arguments, in the order in
  which the facade passes them.
\<close>

datatype contract_call =
    GetAgentCall string
  | IsEnabledCall string
  | CreateAgentCall string string string "int list"
  | UpdateAgentCall string string "int list"
  | DisableAgentCall string int
  | EnableAgentCall string int

record TxOptions =
  gasLimit :: int
  gasPrice :: int

text \<open>Every request that leaves the facade towards the endpoint, in order of issue.\<close>

datatype request =
    Call runner contract_call
  | EstimateGas runner contract_call
  | GetGasPrice runner
  | SendTransaction runner contract_call TxOptions
  | Wait string

section \<open>The endpoint and the state it is run against\<close>

text \<open>
  The JSON-RPC endpoint, the deployed contract and its ABI are not part of the
  repository's source; they are a parameter of the model. \<open>'c\<close> is the state of the
  chain. An \<^verbatim>\<open>eth_call\<close>, a gas estimate and a gas-price query read the chain; sending a
  transaction and waiting for it to be mined may change it, also when they fail.
  The ABI marks \<^verbatim>\<open>getAgent\<close> and \<^verbatim>\<open>isEnabled\<close> as views (section 4.1 of the
  specification), so calling them through the contract is a read.
\<close>

record 'c endpoint =
  ep_getAgent :: "'c \<Rightarrow> string \<Rightarrow> thrown + AgentDescription"
  ep_isEnabled :: "'c \<Rightarrow> string \<Rightarrow> thrown + bool"
  ep_estimateGas :: "'c \<Rightarrow> runner \<Rightarrow> contract_call \<Rightarrow> thrown + int"
  ep_getGasPrice :: "'c \<Rightarrow> thrown + int"
  ep_send :: "'c \<Rightarrow> runner \<Rightarrow> contract_call \<Rightarrow> TxOptions \<Rightarrow> (thrown + string) \<times> 'c"
  ep_wait :: "'c \<Rightarrow> string \<Rightarrow> (thrown + unit) \<times> 'c"

record 'c world =
  chain :: 'c
  log :: "request list"

type_synonym ('c, 'a) promise = "'c world \<Rightarrow> (thrown + 'a) \<times> 'c world"

text \<open>
  \<^verbatim>\<open>await\<close> inside an \<^verbatim>\<open>async\<close> function: a rejection of the awaited promise rejects
  the whole function, and nothing after it runs.
\<close>

definition resolve :: "'a \<Rightarrow> ('c, 'a) promise" where
  "resolve x = (\<lambda>s. (Inr x, s))"

definition reject :: "thrown \<Rightarrow> ('c, 'a) promise" where
  "reject e = (\<lambda>s. (Inl e, s))"

definition await :: "('c, 'a) promise \<Rightarrow> ('a \<Rightarrow> ('c, 'b) promise) \<Rightarrow> ('c, 'b) promise" where
  "await p k = (\<lambda>s. case p s of (Inl e, s') \<Rightarrow> (Inl e, s') | (Inr x, s') \<Rightarrow> k x s')"

definition record_request :: "request \<Rightarrow> 'c world \<Rightarrow> 'c world" where
  "record_request r s = s\<lparr>log := log s @ [r]\<rparr>"

subsection \<open>What the ethers contract object does with each kind of method\<close>

definition contract_getAgent :: "'c endpoint \<Rightarrow> runner \<Rightarrow> string \<Rightarrow> ('c, AgentDescription) promise" where
  "contract_getAgent R c agentId =
     (\<lambda>s. (ep_getAgent R (chain s) agentId, record_request (Call c (GetAgentCall agentId)) s))"

definition contract_isEnabled :: "'c endpoint \<Rightarrow> runner \<Rightarrow> string \<Rightarrow> ('c, bool) promise" where
  "contract_isEnabled R c agentId =
     (\<lambda>s. (ep_isEnabled R (chain s) agentId, record_request (Call c (IsEnabledCall agentId)) s))"

definition contract_estimateGas :: "'c endpoint \<Rightarrow> runner \<Rightarrow> contract_call \<Rightarrow> ('c, int) promise" where
  "contract_estimateGas R c call =
     (\<lambda>s. (ep_estimateGas R (chain s) c call, record_request (EstimateGas c call) s))"

definition signer_getGasPrice :: "'c endpoint \<Rightarrow> runner \<Rightarrow> ('c, int) promise" where
  "signer_getGasPrice R c =
     (\<lambda>s. (ep_getGasPrice R (chain s), record_request (GetGasPrice c) s))"

definition contract_send :: "'c endpoint \<Rightarrow> runner \<Rightarrow> contract_call \<Rightarrow> TxOptions \<Rightarrow> ('c, string) promise" where
  "contract_send R c call txOptions =
     (\<lambda>s. case ep_send R (chain s) c call txOptions of
             (res, ch) \<Rightarrow> (res, record_request (SendTransaction c call txOptions) (s\<lparr>chain := ch\<rparr>)))"

definition tx_wait :: "'c endpoint \<Rightarrow> string \<Rightarrow> ('c, unit) promise" where
  "tx_wait R h =
     (\<lambda>s. case ep_wait R (chain s) h of
             (res, ch) \<Rightarrow> (res, record_request (Wait h) (s\<lparr>chain := ch\<rparr>)))"

section \<open>The class AgentRegistry\<close>

text \<open>
  \<^verbatim>\<open>getContract(fromWallet?)\<close> binds the contract to the connected wallet when one is
  given and to the provider otherwise. An absent argument is \<open>None\<close>.
\<close>

definition getContract :: "Wallet option \<Rightarrow> runner" where
  "getContract fromWallet = (case fromWallet of Some w \<Rightarrow> Signer w | None \<Rightarrow> Provider)"

definition getAgent :: "'c endpoint \<Rightarrow> string \<Rightarrow> ('c, AgentDescription) promise" where
  "getAgent R agentId = contract_getAgent R (getContract None) agentId"

definition agentExists :: "'c endpoint \<Rightarrow> string \<Rightarrow> ('c, bool) promise" where
  "agentExists R agentId = await (getAgent R agentId) (\<lambda>agent. resolve (created agent))"

definition isEnabled :: "'c endpoint \<Rightarrow> string \<Rightarrow> ('c, bool) promise" where
  "isEnabled R agentId = contract_isEnabled R (getContract None) agentId"

section \<open>JavaScript numbers\<close>

text \<open>
  A finite IEEE 754 double is a rational number, and \<^verbatim>\<open>x * y\<close> in JavaScript is the exact
  product rounded to the nearest double, ties to the even significand. \<open>fl64\<close> is that
  rounding for the normal range (53 significant bits, unit in the last place
  \<open>2 ^ (\<lfloor>log\<^sub>2 |x|\<rfloor> - 52)\<close>). Overflow to infinity and subnormal numbers are left out: the
  registry multiplies integers below \<open>2 ^ 53\<close> in magnitude by \<^verbatim>\<open>1.15\<close> and \<^verbatim>\<open>1.5\<close>.
\<close>

definition round_ties_even :: "rat \<Rightarrow> int" where
  "round_ties_even x =
     (let f = \<lfloor>x\<rfloor>; d = x - of_int f
      in if d < 1 / 2 then f else if 1 / 2 < d then f + 1 else if even f then f else f + 1)"

definition pow2 :: "int \<Rightarrow> rat" where
  "pow2 e = 2 powi e"

definition floor_log2 :: "rat \<Rightarrow> int" where
  "floor_log2 x = (if 1 \<le> x then bitlen \<lfloor>x\<rfloor> - 1 else - bitlen (\<lceil>1 / x\<rceil> - 1))"

definition fl64_pos :: "rat \<Rightarrow> rat" where
  "fl64_pos x = (let u = pow2 (floor_log2 x - 52) in of_int (round_ties_even (x / u)) * u)"

definition fl64 :: "rat \<Rightarrow> rat" where
  "fl64 x = (if x = 0 then 0 else if x < 0 then - fl64_pos (- x) else fl64_pos x)"

definition js_times :: "rat \<Rightarrow> rat \<Rightarrow> rat" where
  "js_times x y = fl64 (x * y)"

text \<open>
  \<^verbatim>\<open>Math.round\<close>: the nearest integer, a tie going towards plus infinity.
\<close>

definition Math_round :: "rat \<Rightarrow> int" where
  "Math_round x = \<lfloor>x + 1 / 2\<rfloor>"

text \<open>The numeric literals \<^verbatim>\<open>1.15\<close> and \<^verbatim>\<open>1.5\<close> denote the nearest doubles.\<close>

definition GAS_MULTIPLIER :: rat where
  "GAS_MULTIPLIER = fl64 (115 / 100)"

definition GAS_PRICE_MULTIPLIER :: rat where
  "GAS_PRICE_MULTIPLIER = fl64 (15 / 10)"

text \<open>
  Modelled from the spec: \<^verbatim>\<open>BigNumber.toNumber\<close> is a function of the ethers library,
  which is not among the source files. The conversion is defined for the values that
  fit a JavaScript safe integer, where it returns the value itself as a number, and it
  throws (a \<^verbatim>\<open>NUMERIC_FAULT\<close>) for every value whose magnitude exceeds \<open>2 ^ 53 - 1\<close>.
\<close>

definition toNumber :: "int \<Rightarrow> thrown + rat" where
  "toNumber v = (if \<bar>v\<bar> < 2 ^ 53 then Inr (of_int v) else Inl (EthersError ''NUMERIC_FAULT''))"

section \<open>The write operations of AgentRegistry\<close>

text \<open>A synchronous expression that may throw, inside an \<^verbatim>\<open>async\<close> function.\<close>

definition settle :: "thrown + 'a \<Rightarrow> ('c, 'a) promise" where
  "settle r = (\<lambda>s. (r, s))"

text \<open>
  The parameter \<^verbatim>\<open>fromWallet\<close> of the write operations has the TypeScript type
  \<^verbatim>\<open>Wallet\<close>. At run time a caller that is not type-checked can still pass
  \<^verbatim>\<open>undefined\<close>, which is \<open>None\<close> here; \<^verbatim>\<open>fromWallet.address\<close> and
  \<^verbatim>\<open>fromWallet.connect(...)\<close> then throw a \<^verbatim>\<open>TypeError\<close>.
\<close>

definition wallet_address :: "Wallet option \<Rightarrow> ('c, string) promise" where
  "wallet_address fromWallet =
     (case fromWallet of None \<Rightarrow> reject TypeError | Some w \<Rightarrow> resolve (address w))"

definition wallet_connect :: "Wallet option \<Rightarrow> ('c, runner) promise" where
  "wallet_connect fromWallet =
     (case fromWallet of None \<Rightarrow> reject TypeError | Some w \<Rightarrow> resolve (Signer w))"

definition getTxOptions :: "'c endpoint \<Rightarrow> int \<Rightarrow> Wallet option \<Rightarrow> ('c, TxOptions) promise" where
  "getTxOptions R gasLimit' fromWallet =
     await (wallet_connect fromWallet) (\<lambda>signer.
     await (signer_getGasPrice R signer) (\<lambda>gasPrice'.
     await (settle (toNumber gasLimit')) (\<lambda>gl.
     await (settle (toNumber gasPrice')) (\<lambda>gp.
     resolve \<lparr>gasLimit = Math_round (js_times gl GAS_MULTIPLIER),
              gasPrice = Math_round (js_times gp GAS_PRICE_MULTIPLIER)\<rparr>))))"

definition createAgent ::
  "'c endpoint \<Rightarrow> Wallet option \<Rightarrow> string \<Rightarrow> string \<Rightarrow> int list \<Rightarrow> ('c, string) promise" where
  "createAgent R fromWallet agentId reference chainIds =
     await (wallet_address fromWallet) (\<lambda>from.
     let contract = getContract fromWallet in
     await (contract_estimateGas R contract (CreateAgentCall agentId from reference chainIds)) (\<lambda>gas.
     await (getTxOptions R gas fromWallet) (\<lambda>txOptions.
     await (contract_send R contract (CreateAgentCall agentId from reference chainIds) txOptions) (\<lambda>tx.
     await (tx_wait R tx) (\<lambda>_.
     resolve tx)))))"

definition updateAgent ::
  "'c endpoint \<Rightarrow> Wallet option \<Rightarrow> string \<Rightarrow> string \<Rightarrow> int list \<Rightarrow> ('c, string) promise" where
  "updateAgent R fromWallet agentId reference chainIds =
     (let contract = getContract fromWallet in
     await (contract_estimateGas R contract (UpdateAgentCall agentId reference chainIds)) (\<lambda>gas.
     await (getTxOptions R gas fromWallet) (\<lambda>txOptions.
     await (contract_send R contract (UpdateAgentCall agentId reference chainIds) txOptions) (\<lambda>tx.
     await (tx_wait R tx) (\<lambda>_.
     resolve tx)))))"

definition disableAgent :: "'c endpoint \<Rightarrow> Wallet option \<Rightarrow> string \<Rightarrow> ('c, string) promise" where
  "disableAgent R fromWallet agentId =
     (let contract = getContract fromWallet in
     await (contract_estimateGas R contract (DisableAgentCall agentId 1)) (\<lambda>gas.
     await (getTxOptions R gas fromWallet) (\<lambda>txOptions.
     await (contract_send R contract (DisableAgentCall agentId 1) txOptions) (\<lambda>tx.
     await (tx_wait R tx) (\<lambda>_.
     resolve tx)))))"

definition enableAgent :: "'c endpoint \<Rightarrow> Wallet option \<Rightarrow> string \<Rightarrow> ('c, string) promise" where
  "enableAgent R fromWallet agentId =
     (let contract = getContract fromWallet in
     await (contract_estimateGas R contract (EnableAgentCall agentId 1)) (\<lambda>gas.
     await (getTxOptions R gas fromWallet) (\<lambda>txOptions.
     await (contract_send R contract (EnableAgentCall agentId 1) txOptions) (\<lambda>tx.
     await (tx_wait R tx) (\<lambda>_.
     resolve tx)))))"

subsection \<open>The four write operations as one family\<close>

text \<open>
  An invocation of one of the four write operations, and the function that runs it.
  Statements about every write operation quantify over \<open>write_op\<close>.
\<close>

datatype write_op =
    CreateAgent string string "int list"
  | UpdateAgent string string "int list"
  | DisableAgent string
  | EnableAgent string

definition invoke :: "'c endpoint \<Rightarrow> Wallet option \<Rightarrow> write_op \<Rightarrow> ('c, string) promise" where
  "invoke R fromWallet w =
     (case w of
        CreateAgent agentId reference chainIds \<Rightarrow> createAgent R fromWallet agentId reference chainIds
      | UpdateAgent agentId reference chainIds \<Rightarrow> updateAgent R fromWallet agentId reference chainIds
      | DisableAgent agentId \<Rightarrow> disableAgent R fromWallet agentId
      | EnableAgent agentId \<Rightarrow> enableAgent R fromWallet agentId)"

text \<open>
  The sequence the four bodies share once a wallet is present: estimate, fee options,
  send, wait, return the hash.
\<close>

definition submit :: "'c endpoint \<Rightarrow> Wallet \<Rightarrow> contract_call \<Rightarrow> ('c, string) promise" where
  "submit R w call =
     await (contract_estimateGas R (Signer w) call) (\<lambda>gas.
     await (getTxOptions R gas (Some w)) (\<lambda>txOptions.
     await (contract_send R (Signer w) call txOptions) (\<lambda>tx.
     await (tx_wait R tx) (\<lambda>_.
     resolve tx))))"

text \<open>The fee options computed from a gas estimate and a gas price that passed \<open>toNumber\<close>.\<close>

definition fee_quote :: "int \<Rightarrow> int \<Rightarrow> TxOptions" where
  "fee_quote G P =
     \<lparr>gasLimit = Math_round (js_times (of_int G) GAS_MULTIPLIER),
      gasPrice = Math_round (js_times (of_int P) GAS_PRICE_MULTIPLIER)\<rparr>"

text \<open>The requests of kind \<open>SendTransaction\<close> in a log, and the requests added by a run.\<close>

fun is_submission :: "request \<Rightarrow> bool" where
  "is_submission (SendTransaction _ _ _) = True"
| "is_submission _ = False"

definition submissions :: "request list \<Rightarrow> request list" where
  "submissions rs = filter is_submission rs"

definition issued :: "'c world \<Rightarrow> 'c world \<Rightarrow> request list" where
  "issued s s' = drop (length (log s)) (log s')"

text \<open>
  The contract call an invocation estimates and sends when run with wallet \<open>w\<close>; that the
  source does pass exactly this call is proved below, operation by operation.
\<close>

definition contract_call_of :: "Wallet \<Rightarrow> write_op \<Rightarrow> contract_call" where
  "contract_call_of w x =
     (case x of
        CreateAgent agentId reference chainIds \<Rightarrow> CreateAgentCall agentId (address w) reference chainIds
      | UpdateAgent agentId reference chainIds \<Rightarrow> UpdateAgentCall agentId reference chainIds
      | DisableAgent agentId \<Rightarrow> DisableAgentCall agentId 1
      | EnableAgent agentId \<Rightarrow> EnableAgentCall agentId 1)"

text \<open>The permission arguments carried by the requests of a log.\<close>

fun permission_args :: "request \<Rightarrow> int list" where
  "permission_args (EstimateGas _ (DisableAgentCall _ p)) = [p]"
| "permission_args (EstimateGas _ (EnableAgentCall _ p)) = [p]"
| "permission_args (SendTransaction _ (DisableAgentCall _ p) _) = [p]"
| "permission_args (SendTransaction _ (EnableAgentCall _ p) _) = [p]"
| "permission_args (Call _ (DisableAgentCall _ p)) = [p]"
| "permission_args (Call _ (EnableAgentCall _ p)) = [p]"
| "permission_args _ = []"

text \<open>
  \<open>carries c r\<close>: if the request \<open>r\<close> is a gas estimate or a submission, the contract call
  it carries is \<open>c\<close>.
\<close>

fun carries :: "contract_call \<Rightarrow> request \<Rightarrow> bool" where
  "carries c (EstimateGas _ c') = (c' = c)"
| "carries c (SendTransaction _ c' _) = (c' = c)"
| "carries c _ = True"

text \<open>
  What section 3 of the specification says of the contract: once a \<^verbatim>\<open>createAgent\<close>
  transaction for an id has been mined, the record of that id is created and owned by
  the owner argument of the call.
\<close>

definition records_owner :: "'c endpoint \<Rightarrow> bool" where
  "records_owner R =
     (\<forall>c r agentId own reference chainIds opts h c1 c2.
        ep_send R c r (CreateAgentCall agentId own reference chainIds) opts = (Inr h, c1) \<longrightarrow>
        ep_wait R c1 h = (Inr (), c2) \<longrightarrow>
        (\<exists>a. ep_getAgent R c2 agentId = Inr a \<and> created a \<and> owner a = own))"

section \<open>A reference registry\<close>

text \<open>
  Modelled from the spec: the registry contract and the endpoint in front of it are
  not among the source files. This is the contract of sections 3 and 8 of the
  specification: an id is created once, by the owner argument of the call; a second
  \<^verbatim>\<open>createAgent\<close> for the id reverts, and so does any other write on an id that was
  never created; a reverting call fails at gas estimation. The gas estimate and the
  gas price the endpoint reports are parameters. It serves as the concrete endpoint
  at which the theorems are instantiated.
\<close>

record sim_chain =
  agents :: "(string \<times> AgentDescription) list"
  disabled :: "string list"
  mempool :: "(string \<times> contract_call) list"

definition sim_reverts :: "sim_chain \<Rightarrow> contract_call \<Rightarrow> bool" where
  "sim_reverts c call =
     (case call of
        CreateAgentCall agentId _ _ _ \<Rightarrow> map_of (agents c) agentId \<noteq> None
      | UpdateAgentCall agentId _ _ \<Rightarrow> map_of (agents c) agentId = None
      | DisableAgentCall agentId _ \<Rightarrow> map_of (agents c) agentId = None
      | EnableAgentCall agentId _ \<Rightarrow> map_of (agents c) agentId = None
      | _ \<Rightarrow> False)"

definition sim_apply :: "contract_call \<Rightarrow> sim_chain \<Rightarrow> sim_chain" where
  "sim_apply call c =
     (case call of
        CreateAgentCall agentId own reference _ \<Rightarrow>
          c\<lparr>agents := (agentId, \<lparr>created = True, owner = own, metadata = reference\<rparr>) # agents c\<rparr>
      | UpdateAgentCall agentId reference _ \<Rightarrow>
          (case map_of (agents c) agentId of
             None \<Rightarrow> c
           | Some a \<Rightarrow> c\<lparr>agents := (agentId, a\<lparr>metadata := reference\<rparr>) # agents c\<rparr>)
      | DisableAgentCall agentId _ \<Rightarrow> c\<lparr>disabled := agentId # disabled c\<rparr>
      | EnableAgentCall agentId _ \<Rightarrow> c\<lparr>disabled := removeAll agentId (disabled c)\<rparr>
      | _ \<Rightarrow> c)"

definition zero_record :: AgentDescription where
  "zero_record = \<lparr>created = False, owner = ''0x0'', metadata = []\<rparr>"

definition sim_hash :: "nat \<Rightarrow> string" where
  "sim_hash n = ''0x'' @ replicate (Suc n) (CHR ''a'')"

definition sim_endpoint :: "int \<Rightarrow> int \<Rightarrow> sim_chain endpoint" where
  "sim_endpoint G P =
     \<lparr>ep_getAgent = (\<lambda>c agentId.
         Inr (case map_of (agents c) agentId of None \<Rightarrow> zero_record | Some a \<Rightarrow> a)),
      ep_isEnabled = (\<lambda>c agentId.
         Inr (map_of (agents c) agentId \<noteq> None \<and> agentId \<notin> set (disabled c))),
      ep_estimateGas = (\<lambda>c r call.
         if sim_reverts c call then Inl (EthersError ''UNPREDICTABLE_GAS_LIMIT'') else Inr G),
      ep_getGasPrice = (\<lambda>c. Inr P),
      ep_send = (\<lambda>c r call opts.
         (Inr (sim_hash (length (mempool c))),
          c\<lparr>mempool := (sim_hash (length (mempool c)), call) # mempool c\<rparr>)),
      ep_wait = (\<lambda>c h.
         case map_of (mempool c) h of
           None \<Rightarrow> (Inl (EthersError ''TIMEOUT''), c)
         | Some call \<Rightarrow>
             if sim_reverts c call then (Inl (EthersError ''CALL_EXCEPTION''), c)
             else (Inr (), sim_apply call c))\<rparr>"

definition sim_genesis :: "sim_chain world" where
  "sim_genesis = \<lparr>chain = \<lparr>agents = [], disabled = [], mempool = []\<rparr>, log = []\<rparr>"

definition alice :: Wallet where
  "alice = \<lparr>address = ''0xA11CE''\<rparr>"

text \<open>The chain on which \<open>alice\<close> has already created the agent \<^verbatim>\<open>0xabc\<close>.\<close>

definition sim_created :: "sim_chain world" where
  "sim_created =
     \<lparr>chain = \<lparr>agents = [(''0xabc'', \<lparr>created = True, owner = ''0xA11CE'', metadata = ''ipfs://ref1''\<rparr>)],
               disabled = [], mempool = []\<rparr>,
      log = []\<rparr>"

section \<open>The chain id of the SDK's utilities\<close>

text \<open>
  A JavaScript number that is an integer or \<^verbatim>\<open>NaN\<close>: what \<^verbatim>\<open>parseInt\<close> returns, and what
  a network reports as its chain id.
\<close>

datatype js_number = NaN | Finite int

text \<open>The only field of \<^verbatim>\<open>FortaConfig\<close> that \<^verbatim>\<open>getJsonRpcUrl\<close> reads.\<close>

record FortaConfig =
  jsonRpcUrl :: "string option"

text \<open>
  The process around the module: \<^verbatim>\<open>process.env\<close>, the built-in \<^verbatim>\<open>parseInt\<close>, the global
  and the local configuration file (\<open>None\<close> when the file does not exist, \<open>Inl\<close> when
  reading or parsing it throws), and the chain id that the network behind a URL reports
  to \<^verbatim>\<open>provider.getNetwork()\<close>.
\<close>

record host =
  env :: "string \<Rightarrow> string option"
  parseInt :: "string \<Rightarrow> js_number"
  global_config :: "(thrown + FortaConfig) option"
  local_config :: "(thrown + FortaConfig) option"
  getNetwork :: "string \<Rightarrow> thrown + js_number"

text \<open>
  A call into the ethers library that makes it ask the endpoint behind a URL for its
  chain id: \<open>DetectNetwork url\<close> is \<^verbatim>\<open>new ethers.providers.JsonRpcProvider(url)\<close>, whose
  constructor, given no network, schedules the detection of the network (an
  \<^verbatim>\<open>eth_chainId\<close> request); \<open>GetNetwork url\<close> is \<^verbatim>\<open>provider.getNetwork()\<close> awaited on
  the provider for that URL.
\<close>

datatype network_query = DetectNetwork string | GetNetwork string

text \<open>
  The module-level variables \<^verbatim>\<open>chainId\<close> and \<^verbatim>\<open>fortaConfig\<close> (\<open>None\<close> is \<^verbatim>\<open>undefined\<close>),
  and the queries put to the network so far.
\<close>

record module_state =
  chainId :: "js_number option"
  fortaConfig :: "FortaConfig option"
  network_queries :: "network_query list"

text \<open>Truthiness of an environment variable and of the cached chain id.\<close>

definition truthy_string :: "string option \<Rightarrow> bool" where
  "truthy_string v = (case v of None \<Rightarrow> False | Some x \<Rightarrow> x \<noteq> [])"

definition truthy_number :: "js_number option \<Rightarrow> bool" where
  "truthy_number v = (case v of None \<Rightarrow> False | Some NaN \<Rightarrow> False | Some (Finite n) \<Rightarrow> n \<noteq> 0)"

definition Object_assign :: "FortaConfig \<Rightarrow> FortaConfig \<Rightarrow> FortaConfig" where
  "Object_assign target source =
     (case jsonRpcUrl source of None \<Rightarrow> target | Some u \<Rightarrow> target\<lparr>jsonRpcUrl := Some u\<rparr>)"

definition empty_config :: FortaConfig where
  "empty_config = \<lparr>jsonRpcUrl = None\<rparr>"

definition getFortaConfig :: "host \<Rightarrow> module_state \<Rightarrow> (thrown + FortaConfig) \<times> module_state" where
  "getFortaConfig H s =
     (case fortaConfig s of
        Some c \<Rightarrow> (Inr c, s)
      | None \<Rightarrow>
          (case global_config H of
             Some (Inl e) \<Rightarrow> (Inl e, s\<lparr>fortaConfig := Some empty_config\<rparr>)
           | g \<Rightarrow>
               (let c1 = (case g of Some (Inr c) \<Rightarrow> Object_assign empty_config c | _ \<Rightarrow> empty_config)
                in case local_config H of
                     Some (Inl e) \<Rightarrow> (Inl e, s\<lparr>fortaConfig := Some c1\<rparr>)
                   | Some (Inr c) \<Rightarrow>
                       (Inr (Object_assign c1 c), s\<lparr>fortaConfig := Some (Object_assign c1 c)\<rparr>)
                   | None \<Rightarrow> (Inr c1, s\<lparr>fortaConfig := Some c1\<rparr>))))"

definition getJsonRpcUrl :: "host \<Rightarrow> module_state \<Rightarrow> (thrown + string) \<times> module_state" where
  "getJsonRpcUrl H s =
     (if truthy_string (env H ''JSON_RPC_HOST'')
      then (Inr (''http://'' @ the (env H ''JSON_RPC_HOST'') @
                 (if truthy_string (env H ''JSON_RPC_PORT'')
                  then '':'' @ the (env H ''JSON_RPC_PORT'') else [])), s)
      else (case getFortaConfig H s of
              (Inl e, s') \<Rightarrow> (Inl e, s')
            | (Inr c, s') \<Rightarrow>
                if \<not> truthy_string (jsonRpcUrl c) then (Inr ''https://cloudflare-eth.com/'', s')
                else if take 4 (the (jsonRpcUrl c)) \<noteq> ''http''
                then (Inl (PlainError ''jsonRpcUrl must begin with http(s)''), s')
                else (Inr (the (jsonRpcUrl c)), s')))"

text \<open>
  \<^verbatim>\<open>getEthersProvider\<close> resolves the URL and constructs a new provider for it, on every
  call. A provider is identified by the URL it was constructed for.
\<close>

definition getEthersProvider :: "host \<Rightarrow> module_state \<Rightarrow> (thrown + string) \<times> module_state" where
  "getEthersProvider H s =
     (case getJsonRpcUrl H s of
        (Inl e, s') \<Rightarrow> (Inl e, s')
      | (Inr url, s') \<Rightarrow>
          (Inr url, s'\<lparr>network_queries := network_queries s' @ [DetectNetwork url]\<rparr>))"

definition getChainId :: "host \<Rightarrow> module_state \<Rightarrow> (thrown + js_number) \<times> module_state" where
  "getChainId H s =
     (if truthy_string (env H ''FORTA_CHAIN_ID'')
      then (Inr (parseInt H (the (env H ''FORTA_CHAIN_ID''))), s)
      else (case getEthersProvider H s of
              (Inl e, s1) \<Rightarrow> (Inl e, s1)
            | (Inr provider, s1) \<Rightarrow>
                if \<not> truthy_number (chainId s1)
                then (case getNetwork H provider of
                        Inl e \<Rightarrow>
                          (Inl e, s1\<lparr>network_queries := network_queries s1 @ [GetNetwork provider]\<rparr>)
                      | Inr n \<Rightarrow>
                          (Inr n, s1\<lparr>chainId := Some n,
                                     network_queries := network_queries s1 @ [GetNetwork provider]\<rparr>))
                else (Inr (the (chainId s1)), s1)))"

text \<open>The state of the module after \<open>k\<close> calls of \<open>getChainId\<close> in a row.\<close>

fun after_calls :: "nat \<Rightarrow> host \<Rightarrow> module_state \<Rightarrow> module_state" where
  "after_calls 0 H s = s"
| "after_calls (Suc k) H s = after_calls k H (snd (getChainId H s))"

text \<open>
  A host for a local developer: no configuration file, a network that reports chain id
  \<open>n\<close>, and an environment given as a list of bindings. \<open>parse_digits\<close> stands in for
  \<^verbatim>\<open>parseInt\<close> on strings of decimal digits.
\<close>

definition parse_digits :: "string \<Rightarrow> js_number" where
  "parse_digits v =
     (if v \<noteq> [] \<and> list_all (\<lambda>c. c \<in> set ''0123456789'') v
      then Finite (foldl (\<lambda>n c. 10 * n + (int (of_char c) - 48)) 0 v) else NaN)"

definition dev_host :: "(string \<times> string) list \<Rightarrow> int \<Rightarrow> host" where
  "dev_host bindings n =
     \<lparr>env = map_of bindings, parseInt = parse_digits, global_config = None, local_config = None,
      getNetwork = (\<lambda>url. Inr (Finite n))\<rparr>"

definition fresh_module :: module_state where
  "fresh_module = \<lparr>chainId = None, fortaConfig = None, network_queries = []\<rparr>"

section \<open>Theorems\<close>

text \<open>
  C5. For every agent id, \<open>agentExists\<close> returns exactly the \<open>created\<close> field of the
  record that \<open>getAgent\<close> returns for that id: run from the same state, the two leave the
  same state behind, \<open>agentExists\<close> resolves to \<open>created a\<close> where \<open>getAgent\<close> resolves to
  \<open>a\<close>, and rejects with the same value where \<open>getAgent\<close> rejects.
\<close>

theorem agentExists_is_created:
  "agentExists R agentId s =
     (case getAgent R agentId s of
        (Inl e, s') \<Rightarrow> (Inl e, s')
      | (Inr a, s') \<Rightarrow> (Inr (created a), s'))"
  by (simp add: agentExists_def await_def resolve_def split: prod.splits sum.splits)

subsection \<open>The stages of a write\<close>

lemma createAgent_submit:
  "createAgent R (Some w) agentId reference chainIds =
     submit R w (CreateAgentCall agentId (address w) reference chainIds)"
  by (simp add: createAgent_def submit_def wallet_address_def getContract_def await_def resolve_def Let_def)

lemma updateAgent_submit:
  "updateAgent R (Some w) agentId reference chainIds =
     submit R w (UpdateAgentCall agentId reference chainIds)"
  by (simp add: updateAgent_def submit_def getContract_def Let_def)

lemma disableAgent_submit:
  "disableAgent R (Some w) agentId = submit R w (DisableAgentCall agentId 1)"
  by (simp add: disableAgent_def submit_def getContract_def Let_def)

lemma enableAgent_submit:
  "enableAgent R (Some w) agentId = submit R w (EnableAgentCall agentId 1)"
  by (simp add: enableAgent_def submit_def getContract_def Let_def)

lemma invoke_submit: "invoke R (Some w) x = submit R w (contract_call_of w x)"
  by (cases x)
     (simp_all add: invoke_def contract_call_of_def createAgent_submit updateAgent_submit
        disableAgent_submit enableAgent_submit)

lemmas run_defs =
  submit_def getTxOptions_def wallet_connect_def await_def resolve_def reject_def settle_def
  contract_estimateGas_def signer_getGasPrice_def contract_send_def tx_wait_def
  record_request_def

lemma submit_estimate_fails:
  assumes "ep_estimateGas R (chain s) (Signer w) call = Inl e"
  shows "submit R w call s = (Inl e, s\<lparr>log := log s @ [EstimateGas (Signer w) call]\<rparr>)"
  using assms by (simp add: run_defs)

lemma submit_price_fails:
  assumes "ep_estimateGas R (chain s) (Signer w) call = Inr G"
    and "ep_getGasPrice R (chain s) = Inl e"
  shows "submit R w call s =
    (Inl e, s\<lparr>log := log s @ [EstimateGas (Signer w) call, GetGasPrice (Signer w)]\<rparr>)"
  using assms by (simp add: run_defs)

lemma submit_overflow:
  assumes "ep_estimateGas R (chain s) (Signer w) call = Inr G"
    and "ep_getGasPrice R (chain s) = Inr P"
    and "\<not> (\<bar>G\<bar> < 2 ^ 53 \<and> \<bar>P\<bar> < 2 ^ 53)"
  shows "submit R w call s =
    (Inl (EthersError ''NUMERIC_FAULT''),
     s\<lparr>log := log s @ [EstimateGas (Signer w) call, GetGasPrice (Signer w)]\<rparr>)"
  using assms by (auto simp add: run_defs toNumber_def)

lemma submit_send_fails:
  assumes "ep_estimateGas R (chain s) (Signer w) call = Inr G"
    and "ep_getGasPrice R (chain s) = Inr P"
    and "\<bar>G\<bar> < 2 ^ 53" and "\<bar>P\<bar> < 2 ^ 53"
    and "ep_send R (chain s) (Signer w) call (fee_quote G P) = (Inl e, c1)"
  shows "submit R w call s =
    (Inl e, s\<lparr>chain := c1, log := log s @ [EstimateGas (Signer w) call, GetGasPrice (Signer w),
         SendTransaction (Signer w) call (fee_quote G P)]\<rparr>)"
  using assms by (simp add: run_defs toNumber_def fee_quote_def)

lemma submit_sent:
  assumes "ep_estimateGas R (chain s) (Signer w) call = Inr G"
    and "ep_getGasPrice R (chain s) = Inr P"
    and "\<bar>G\<bar> < 2 ^ 53" and "\<bar>P\<bar> < 2 ^ 53"
    and "ep_send R (chain s) (Signer w) call (fee_quote G P) = (Inr h, c1)"
    and "ep_wait R c1 h = (r, c2)"
  shows "submit R w call s =
    (case r of Inl e \<Rightarrow> Inl e | Inr u \<Rightarrow> Inr h,
     s\<lparr>chain := c2, log := log s @ [EstimateGas (Signer w) call, GetGasPrice (Signer w),
         SendTransaction (Signer w) call (fee_quote G P), Wait h]\<rparr>)"
  using assms by (simp add: run_defs toNumber_def fee_quote_def split: sum.splits)

lemma issued_log [simp]: "issued s (s\<lparr>log := log s @ xs\<rparr>) = xs"
  by (simp add: issued_def)

lemma issued_chain_log [simp]: "issued s (s\<lparr>chain := c, log := log s @ xs\<rparr>) = xs"
  by (simp add: issued_def)

lemma issued_same [simp]: "issued s s = []"
  by (simp add: issued_def)

lemma submit_cases:
  obtains
    (estimate) e where
      "ep_estimateGas R (chain s) (Signer w) call = Inl e"
      "submit R w call s = (Inl e, s\<lparr>log := log s @ [EstimateGas (Signer w) call]\<rparr>)"
  | (price) G e where
      "ep_estimateGas R (chain s) (Signer w) call = Inr G"
      "ep_getGasPrice R (chain s) = Inl e"
      "submit R w call s =
         (Inl e, s\<lparr>log := log s @ [EstimateGas (Signer w) call, GetGasPrice (Signer w)]\<rparr>)"
  | (overflow) G P where
      "ep_estimateGas R (chain s) (Signer w) call = Inr G"
      "ep_getGasPrice R (chain s) = Inr P"
      "\<not> (\<bar>G\<bar> < 2 ^ 53 \<and> \<bar>P\<bar> < 2 ^ 53)"
      "submit R w call s =
         (Inl (EthersError ''NUMERIC_FAULT''),
          s\<lparr>log := log s @ [EstimateGas (Signer w) call, GetGasPrice (Signer w)]\<rparr>)"
  | (send) G P e c1 where
      "ep_estimateGas R (chain s) (Signer w) call = Inr G"
      "ep_getGasPrice R (chain s) = Inr P"
      "\<bar>G\<bar> < 2 ^ 53" "\<bar>P\<bar> < 2 ^ 53"
      "ep_send R (chain s) (Signer w) call (fee_quote G P) = (Inl e, c1)"
      "submit R w call s =
         (Inl e, s\<lparr>chain := c1, log := log s @ [EstimateGas (Signer w) call, GetGasPrice (Signer w),
            SendTransaction (Signer w) call (fee_quote G P)]\<rparr>)"
  | (wait) G P h c1 e c2 where
      "ep_estimateGas R (chain s) (Signer w) call = Inr G"
      "ep_getGasPrice R (chain s) = Inr P"
      "\<bar>G\<bar> < 2 ^ 53" "\<bar>P\<bar> < 2 ^ 53"
      "ep_send R (chain s) (Signer w) call (fee_quote G P) = (Inr h, c1)"
      "ep_wait R c1 h = (Inl e, c2)"
      "submit R w call s =
         (Inl e, s\<lparr>chain := c2, log := log s @ [EstimateGas (Signer w) call, GetGasPrice (Signer w),
            SendTransaction (Signer w) call (fee_quote G P), Wait h]\<rparr>)"
  | (mined) G P h c1 c2 where
      "ep_estimateGas R (chain s) (Signer w) call = Inr G"
      "ep_getGasPrice R (chain s) = Inr P"
      "\<bar>G\<bar> < 2 ^ 53" "\<bar>P\<bar> < 2 ^ 53"
      "ep_send R (chain s) (Signer w) call (fee_quote G P) = (Inr h, c1)"
      "ep_wait R c1 h = (Inr (), c2)"
      "submit R w call s =
         (Inr h, s\<lparr>chain := c2, log := log s @ [EstimateGas (Signer w) call, GetGasPrice (Signer w),
            SendTransaction (Signer w) call (fee_quote G P), Wait h]\<rparr>)"
proof (cases "ep_estimateGas R (chain s) (Signer w) call")
  case (Inl e)
  then show ?thesis using estimate submit_estimate_fails by blast
next
  case G: (Inr G)
  show ?thesis
  proof (cases "ep_getGasPrice R (chain s)")
    case (Inl e)
    then show ?thesis using price G submit_price_fails by blast
  next
    case P: (Inr P)
    show ?thesis
    proof (cases "\<bar>G\<bar> < 2 ^ 53 \<and> \<bar>P\<bar> < 2 ^ 53")
      case False
      then show ?thesis using overflow [OF G P] submit_overflow [OF G P] by blast
    next
      case True
      then have g: "\<bar>G\<bar> < 2 ^ 53" and p: "\<bar>P\<bar> < 2 ^ 53" by simp_all
      obtain r c1 where snd: "ep_send R (chain s) (Signer w) call (fee_quote G P) = (r, c1)"
        by (cases "ep_send R (chain s) (Signer w) call (fee_quote G P)")
      show ?thesis
      proof (cases r)
        case (Inl e)
        with snd have "ep_send R (chain s) (Signer w) call (fee_quote G P) = (Inl e, c1)" by simp
        then show ?thesis using send [OF G P g p] submit_send_fails [OF G P g p] by blast
      next
        case (Inr h)
        with snd have sh: "ep_send R (chain s) (Signer w) call (fee_quote G P) = (Inr h, c1)" by simp
        obtain r2 c2 where wt: "ep_wait R c1 h = (r2, c2)" by (cases "ep_wait R c1 h")
        show ?thesis
        proof (cases r2)
          case (Inl e)
          with wt have w': "ep_wait R c1 h = (Inl e, c2)" by simp
          show ?thesis
            using wait [OF G P g p sh w'] submit_sent [OF G P g p sh w'] by simp
        next
          case (Inr u)
          with wt have w': "ep_wait R c1 h = (Inr (), c2)" by simp
          show ?thesis
            using mined [OF G P g p sh w'] submit_sent [OF G P g p sh w'] by simp
        qed
      qed
    qed
  qed
qed

subsection \<open>Failures before submission, and the reads\<close>

lemma submissions_simps [simp]:
  "submissions [] = []"
  "submissions (EstimateGas r c # xs) = submissions xs"
  "submissions (GetGasPrice r # xs) = submissions xs"
  "submissions (Call r c # xs) = submissions xs"
  "submissions (Wait h # xs) = submissions xs"
  "submissions (SendTransaction r c opts # xs) = SendTransaction r c opts # submissions xs"
  by (simp_all add: submissions_def)

text \<open>
  C2, as amended. For every write operation run with a wallet: if the gas estimate of
  its contract call fails with \<open>e\<close>, or the estimate succeeds and the gas-price query
  fails with \<open>e\<close>, the operation rejects with \<open>e\<close> itself, the value the library
  rejected with, not wrapped in any error class of the facade's own; no transaction is
  submitted and the chain is left as it was.
\<close>

theorem estimation_failure_propagates:
  assumes "ep_estimateGas R (chain s) (Signer w) (contract_call_of w x) = Inl e
    \<or> (\<exists>G. ep_estimateGas R (chain s) (Signer w) (contract_call_of w x) = Inr G
          \<and> ep_getGasPrice R (chain s) = Inl e)"
  shows "fst (invoke R (Some w) x s) = Inl e
    \<and> submissions (issued s (snd (invoke R (Some w) x s))) = []
    \<and> chain (snd (invoke R (Some w) x s)) = chain s"
  using assms
  by (auto simp: invoke_submit submit_estimate_fails submit_price_fails)

text \<open>
  The theorem at the reference registry: \<open>alice\<close> creates \<^verbatim>\<open>0xabc\<close> a second time.
\<close>

theorem estimation_failure_propagates_witness:
  "fst (invoke (sim_endpoint 21010 1000000007) (Some alice)
          (CreateAgent ''0xabc'' ''ipfs://ref1'' [1, 137]) sim_created)
     = Inl (EthersError ''UNPREDICTABLE_GAS_LIMIT'')
   \<and> submissions (issued sim_created (snd (invoke (sim_endpoint 21010 1000000007) (Some alice)
          (CreateAgent ''0xabc'' ''ipfs://ref1'' [1, 137]) sim_created))) = []
   \<and> chain (snd (invoke (sim_endpoint 21010 1000000007) (Some alice)
          (CreateAgent ''0xabc'' ''ipfs://ref1'' [1, 137]) sim_created)) = chain sim_created"
  by (rule estimation_failure_propagates)
     (simp add: sim_endpoint_def sim_created_def contract_call_of_def sim_reverts_def)

text \<open>
  C2 as stated fails: the duplicate \<^verbatim>\<open>createAgent\<close> rejects with the library's own
  error, which is not an \<open>EstimationError\<close> carrying it.
\<close>

theorem estimation_failure_is_not_typed:
  "fst (createAgent (sim_endpoint 21010 1000000007) (Some alice) ''0xabc'' ''ipfs://ref1'' [1, 137]
          sim_created) = Inl (EthersError ''UNPREDICTABLE_GAS_LIMIT'')
   \<and> fst (createAgent (sim_endpoint 21010 1000000007) (Some alice) ''0xabc'' ''ipfs://ref1'' [1, 137]
          sim_created) \<noteq> Inl (EstimationError (EthersError ''UNPREDICTABLE_GAS_LIMIT''))"
  by (simp add: createAgent_submit submit_estimate_fails sim_endpoint_def sim_created_def
      sim_reverts_def)

text \<open>
  C8. The read operations \<open>getAgent\<close>, \<open>isEnabled\<close> and \<open>agentExists\<close> issue exactly one
  request, a contract call bound to the provider with no wallet connected; they request
  no gas estimate and no gas price, submit no transaction, and leave the chain state
  unchanged.
\<close>

theorem reads_only_call_the_provider:
  "getAgent R agentId s =
     (ep_getAgent R (chain s) agentId, s\<lparr>log := log s @ [Call Provider (GetAgentCall agentId)]\<rparr>)
   \<and> isEnabled R agentId s =
     (ep_isEnabled R (chain s) agentId, s\<lparr>log := log s @ [Call Provider (IsEnabledCall agentId)]\<rparr>)
   \<and> snd (agentExists R agentId s) = s\<lparr>log := log s @ [Call Provider (GetAgentCall agentId)]\<rparr>
   \<and> chain (snd (getAgent R agentId s)) = chain s
   \<and> chain (snd (isEnabled R agentId s)) = chain s
   \<and> chain (snd (agentExists R agentId s)) = chain s"
  by (simp add: getAgent_def isEnabled_def agentExists_def contract_getAgent_def
      contract_isEnabled_def getContract_def record_request_def await_def resolve_def
      split: sum.splits)

text \<open>
  C10. \<open>getTxOptions\<close> passes the gas estimate and the gas price through \<open>toNumber\<close>.
  For every write operation whose gas estimate or gas price exceeds \<open>2 ^ 53 - 1\<close> the fee
  computation throws, the operation rejects with that numeric fault, and the only
  requests issued are the estimate and the price query: nothing is submitted.
\<close>

theorem unsafe_integer_fails_before_submission:
  assumes "ep_estimateGas R (chain s) (Signer w) (contract_call_of w x) = Inr G"
    and "ep_getGasPrice R (chain s) = Inr P"
    and "2 ^ 53 - 1 < G \<or> 2 ^ 53 - 1 < P"
  shows "invoke R (Some w) x s =
      (Inl (EthersError ''NUMERIC_FAULT''),
       s\<lparr>log := log s @ [EstimateGas (Signer w) (contract_call_of w x), GetGasPrice (Signer w)]\<rparr>)
    \<and> submissions (issued s (snd (invoke R (Some w) x s))) = []
    \<and> fst (getTxOptions R G (Some w) s) = Inl (EthersError ''NUMERIC_FAULT'')"
proof -
  from assms(3) have big: "\<not> (\<bar>G\<bar> < 2 ^ 53 \<and> \<bar>P\<bar> < 2 ^ 53)" by auto
  have "fst (getTxOptions R G (Some w) s) = Inl (EthersError ''NUMERIC_FAULT'')"
    using assms(2) big
    by (auto simp: getTxOptions_def wallet_connect_def await_def resolve_def settle_def
        signer_getGasPrice_def toNumber_def)
  then show ?thesis
    by (simp add: invoke_submit submit_overflow [OF assms(1,2) big])
qed

text \<open>
  The theorem at the reference registry with a gas estimate of \<open>2 ^ 53\<close>.
\<close>

theorem unsafe_integer_fails_before_submission_witness:
  "invoke (sim_endpoint (2 ^ 53) 1000000007) (Some alice) (EnableAgent ''0xabc'') sim_created =
      (Inl (EthersError ''NUMERIC_FAULT''),
       sim_created\<lparr>log := log sim_created @
          [EstimateGas (Signer alice) (contract_call_of alice (EnableAgent ''0xabc'')),
           GetGasPrice (Signer alice)]\<rparr>)
    \<and> submissions (issued sim_created (snd (invoke (sim_endpoint (2 ^ 53) 1000000007) (Some alice)
          (EnableAgent ''0xabc'') sim_created))) = []
    \<and> fst (getTxOptions (sim_endpoint (2 ^ 53) 1000000007) (2 ^ 53) (Some alice) sim_created)
        = Inl (EthersError ''NUMERIC_FAULT'')"
  by (rule unsafe_integer_fails_before_submission)
     (simp_all add: sim_endpoint_def sim_created_def contract_call_of_def sim_reverts_def)

subsection \<open>One submission, one confirmation\<close>

lemma submit_issued:
  "\<exists>n opts h. issued s (snd (submit R w call s)) =
     take n [EstimateGas (Signer w) call, GetGasPrice (Signer w),
             SendTransaction (Signer w) call opts, Wait h]"
proof (cases rule: submit_cases [of R s w call])
  case (estimate e)
  then have "issued s (snd (submit R w call s)) =
     take 1 [EstimateGas (Signer w) call, GetGasPrice (Signer w),
             SendTransaction (Signer w) call undefined, Wait undefined]" by simp
  then show ?thesis by blast
next
  case (price G e)
  then have "issued s (snd (submit R w call s)) =
     take 2 [EstimateGas (Signer w) call, GetGasPrice (Signer w),
             SendTransaction (Signer w) call undefined, Wait undefined]" by simp
  then show ?thesis by blast
next
  case (overflow G P)
  then have "issued s (snd (submit R w call s)) =
     take 2 [EstimateGas (Signer w) call, GetGasPrice (Signer w),
             SendTransaction (Signer w) call undefined, Wait undefined]" by simp
  then show ?thesis by blast
next
  case (send G P e c1)
  then have "issued s (snd (submit R w call s)) =
     take 3 [EstimateGas (Signer w) call, GetGasPrice (Signer w),
             SendTransaction (Signer w) call (fee_quote G P), Wait undefined]" by simp
  then show ?thesis by blast
next
  case (wait G P h c1 e c2)
  then have "issued s (snd (submit R w call s)) =
     take 4 [EstimateGas (Signer w) call, GetGasPrice (Signer w),
             SendTransaction (Signer w) call (fee_quote G P), Wait h]" by simp
  then show ?thesis by blast
next
  case (mined G P h c1 c2)
  then have "issued s (snd (submit R w call s)) =
     take 4 [EstimateGas (Signer w) call, GetGasPrice (Signer w),
             SendTransaction (Signer w) call (fee_quote G P), Wait h]" by simp
  then show ?thesis by blast
qed

lemma submit_success:
  assumes "fst (submit R w call s) = Inr h"
  shows "\<exists>opts c1. issued s (snd (submit R w call s)) =
        [EstimateGas (Signer w) call, GetGasPrice (Signer w),
         SendTransaction (Signer w) call opts, Wait h]
      \<and> ep_send R (chain s) (Signer w) call opts = (Inr h, c1)
      \<and> ep_wait R c1 h = (Inr (), chain (snd (submit R w call s)))"
proof (cases rule: submit_cases [of R s w call])
  case (mined G P h' c1 c2)
  with assms have "h' = h" by simp
  with mined show ?thesis by auto
qed (use assms in simp_all)

text \<open>
  C3, as amended. For every write operation run with a wallet, the requests issued by
  one invocation are an initial segment of: one gas estimate, one gas-price query, one
  submission, one wait, each for the operation's own contract call. So no stage is
  ever repeated and at most one transaction is submitted. When the invocation returns
  a hash \<open>h\<close>, all four requests were issued, the one submission returned \<open>h\<close>, and the
  wait for \<open>h\<close> to be mined succeeded: a hash is returned only for a transaction that
  was submitted once and confirmed.
\<close>

theorem write_submits_at_most_once:
  "(\<exists>n opts h. issued s (snd (invoke R (Some w) x s)) =
       take n [EstimateGas (Signer w) (contract_call_of w x), GetGasPrice (Signer w),
               SendTransaction (Signer w) (contract_call_of w x) opts, Wait h])
   \<and> (\<forall>h. fst (invoke R (Some w) x s) = Inr h \<longrightarrow>
        (\<exists>opts c1. issued s (snd (invoke R (Some w) x s)) =
           [EstimateGas (Signer w) (contract_call_of w x), GetGasPrice (Signer w),
            SendTransaction (Signer w) (contract_call_of w x) opts, Wait h]
         \<and> ep_send R (chain s) (Signer w) (contract_call_of w x) opts = (Inr h, c1)
         \<and> ep_wait R c1 h = (Inr (), chain (snd (invoke R (Some w) x s)))))"
  unfolding invoke_submit using submit_issued [of s R w] submit_success [of R w _ s] by blast


lemma sim_create_run:
  assumes "\<bar>G\<bar> < 2 ^ 53" and "\<bar>P\<bar> < 2 ^ 53"
  shows "invoke (sim_endpoint G P) (Some alice) (CreateAgent ''0xabc'' ''ipfs://ref1'' [1, 137])
           sim_genesis =
     (Inr ''0xa'',
      \<lparr>chain = \<lparr>agents = [(''0xabc'', \<lparr>created = True, owner = ''0xA11CE'', metadata = ''ipfs://ref1''\<rparr>)],
                disabled = [],
                mempool = [(''0xa'', CreateAgentCall ''0xabc'' ''0xA11CE'' ''ipfs://ref1'' [1, 137])]\<rparr>,
       log = [EstimateGas (Signer alice) (CreateAgentCall ''0xabc'' ''0xA11CE'' ''ipfs://ref1'' [1, 137]),
              GetGasPrice (Signer alice),
              SendTransaction (Signer alice) (CreateAgentCall ''0xabc'' ''0xA11CE'' ''ipfs://ref1'' [1, 137])
                (fee_quote G P),
              Wait ''0xa'']\<rparr>)"
proof -
  let ?R = "sim_endpoint G P"
  let ?call = "CreateAgentCall ''0xabc'' ''0xA11CE'' ''ipfs://ref1'' [1, 137]"
  let ?c1 = "\<lparr>agents = [], disabled = [], mempool = [(''0xa'', ?call)]\<rparr>"
  have call: "contract_call_of alice (CreateAgent ''0xabc'' ''ipfs://ref1'' [1, 137]) = ?call"
    by (simp add: contract_call_of_def alice_def)
  have e: "ep_estimateGas ?R (chain sim_genesis) (Signer alice) ?call = Inr G"
    by (simp add: sim_endpoint_def sim_genesis_def sim_reverts_def)
  have p: "ep_getGasPrice ?R (chain sim_genesis) = Inr P"
    by (simp add: sim_endpoint_def)
  have sd: "ep_send ?R (chain sim_genesis) (Signer alice) ?call (fee_quote G P) = (Inr ''0xa'', ?c1)"
    by (simp add: sim_endpoint_def sim_genesis_def sim_hash_def)
  have wt: "ep_wait ?R ?c1 ''0xa'' = (Inr (), sim_apply ?call ?c1)"
    by (simp add: sim_endpoint_def sim_reverts_def)
  show ?thesis
    unfolding invoke_submit call submit_sent [OF e p assms sd wt]
    by (simp add: sim_apply_def sim_genesis_def)
qed

text \<open>
  The theorem at the reference registry: \<open>alice\<close> creates \<^verbatim>\<open>0xabc\<close> on the empty chain.
\<close>

theorem write_submits_at_most_once_witness:
  "fst (invoke (sim_endpoint 21000 1000000007) (Some alice)
          (CreateAgent ''0xabc'' ''ipfs://ref1'' [1, 137]) sim_genesis) = Inr ''0xa''
   \<and> (\<exists>opts c1. issued sim_genesis (snd (invoke (sim_endpoint 21000 1000000007) (Some alice)
          (CreateAgent ''0xabc'' ''ipfs://ref1'' [1, 137]) sim_genesis)) =
           [EstimateGas (Signer alice) (contract_call_of alice (CreateAgent ''0xabc'' ''ipfs://ref1'' [1, 137])),
            GetGasPrice (Signer alice),
            SendTransaction (Signer alice)
              (contract_call_of alice (CreateAgent ''0xabc'' ''ipfs://ref1'' [1, 137])) opts,
            Wait ''0xa'']
         \<and> ep_send (sim_endpoint 21000 1000000007) (chain sim_genesis) (Signer alice)
              (contract_call_of alice (CreateAgent ''0xabc'' ''ipfs://ref1'' [1, 137])) opts = (Inr ''0xa'', c1)
         \<and> ep_wait (sim_endpoint 21000 1000000007) c1 ''0xa'' =
              (Inr (), chain (snd (invoke (sim_endpoint 21000 1000000007) (Some alice)
                 (CreateAgent ''0xabc'' ''ipfs://ref1'' [1, 137]) sim_genesis))))"
proof -
  have run: "fst (invoke (sim_endpoint 21000 1000000007) (Some alice)
          (CreateAgent ''0xabc'' ''ipfs://ref1'' [1, 137]) sim_genesis) = Inr ''0xa''"
    by (simp add: sim_create_run)
  show ?thesis
    using run write_submits_at_most_once [of sim_genesis "sim_endpoint 21000 1000000007" alice
        "CreateAgent ''0xabc'' ''ipfs://ref1'' [1, 137]"]
    by blast
qed

text \<open>
  C3 as stated fails: an invocation whose gas estimate fails submits no transaction at
  all, so the number of transactions submitted by it is not one.
\<close>

theorem failed_estimate_submits_nothing:
  "submissions (issued sim_created (snd (createAgent (sim_endpoint 21000 1000000007) (Some alice)
      ''0xabc'' ''ipfs://ref1'' [1, 137] sim_created))) = []
   \<and> length (submissions (issued sim_created (snd (createAgent (sim_endpoint 21000 1000000007)
      (Some alice) ''0xabc'' ''ipfs://ref1'' [1, 137] sim_created)))) \<noteq> 1"
  by (simp add: createAgent_submit submit_estimate_fails sim_endpoint_def sim_created_def
      sim_reverts_def issued_def)

subsection \<open>Arguments of the contract calls\<close>

lemma createAgent_no_wallet:
  "createAgent R None agentId reference chainIds s = (Inl TypeError, s)"
  by (simp add: createAgent_def wallet_address_def await_def reject_def)

lemma getTxOptions_no_wallet: "getTxOptions R gas None s = (Inl TypeError, s)"
  by (simp add: getTxOptions_def wallet_connect_def await_def reject_def)

lemma updateAgent_no_wallet:
  "updateAgent R None agentId reference chainIds s =
     (case ep_estimateGas R (chain s) Provider (UpdateAgentCall agentId reference chainIds) of
        Inl e \<Rightarrow> Inl e | Inr G \<Rightarrow> Inl TypeError,
      s\<lparr>log := log s @ [EstimateGas Provider (UpdateAgentCall agentId reference chainIds)]\<rparr>)"
  by (simp add: updateAgent_def getContract_def Let_def await_def contract_estimateGas_def
      record_request_def getTxOptions_no_wallet split: sum.splits)

lemma disableAgent_no_wallet:
  "disableAgent R None agentId s =
     (case ep_estimateGas R (chain s) Provider (DisableAgentCall agentId 1) of
        Inl e \<Rightarrow> Inl e | Inr G \<Rightarrow> Inl TypeError,
      s\<lparr>log := log s @ [EstimateGas Provider (DisableAgentCall agentId 1)]\<rparr>)"
  by (simp add: disableAgent_def getContract_def Let_def await_def contract_estimateGas_def
      record_request_def getTxOptions_no_wallet split: sum.splits)

lemma enableAgent_no_wallet:
  "enableAgent R None agentId s =
     (case ep_estimateGas R (chain s) Provider (EnableAgentCall agentId 1) of
        Inl e \<Rightarrow> Inl e | Inr G \<Rightarrow> Inl TypeError,
      s\<lparr>log := log s @ [EstimateGas Provider (EnableAgentCall agentId 1)]\<rparr>)"
  by (simp add: enableAgent_def getContract_def Let_def await_def contract_estimateGas_def
      record_request_def getTxOptions_no_wallet split: sum.splits)

text \<open>
  C7, as amended. The write operations declare their wallet parameter with the
  non-optional type \<^verbatim>\<open>Wallet\<close>, and the source defines no error class for a missing
  signer. When a caller passes \<^verbatim>\<open>undefined\<close> all the same, the operation rejects with
  the runtime's \<open>TypeError\<close>: \<open>createAgent\<close> before any request is issued, and
  \<open>updateAgent\<close>, \<open>disableAgent\<close> and \<open>enableAgent\<close> after one gas estimate requested
  through the bare provider (with that estimate's own error when it fails). In every
  case no transaction is submitted and the chain is left as it was.
\<close>

theorem write_without_wallet:
  "createAgent R None agentId reference chainIds s = (Inl TypeError, s)
   \<and> updateAgent R None agentId reference chainIds s =
     (case ep_estimateGas R (chain s) Provider (UpdateAgentCall agentId reference chainIds) of
        Inl e \<Rightarrow> Inl e | Inr G \<Rightarrow> Inl TypeError,
      s\<lparr>log := log s @ [EstimateGas Provider (UpdateAgentCall agentId reference chainIds)]\<rparr>)
   \<and> disableAgent R None agentId s =
     (case ep_estimateGas R (chain s) Provider (DisableAgentCall agentId 1) of
        Inl e \<Rightarrow> Inl e | Inr G \<Rightarrow> Inl TypeError,
      s\<lparr>log := log s @ [EstimateGas Provider (DisableAgentCall agentId 1)]\<rparr>)
   \<and> enableAgent R None agentId s =
     (case ep_estimateGas R (chain s) Provider (EnableAgentCall agentId 1) of
        Inl e \<Rightarrow> Inl e | Inr G \<Rightarrow> Inl TypeError,
      s\<lparr>log := log s @ [EstimateGas Provider (EnableAgentCall agentId 1)]\<rparr>)
   \<and> submissions (issued s (snd (invoke R None x s))) = []
   \<and> chain (snd (invoke R None x s)) = chain s"
  by (cases x)
     (simp_all add: invoke_def createAgent_no_wallet updateAgent_no_wallet disableAgent_no_wallet
        enableAgent_no_wallet)

text \<open>
  C7 as stated fails: \<open>updateAgent\<close> without a wallet first asks the endpoint for a gas
  estimate and then rejects with \<open>TypeError\<close>, not with \<open>MissingSignerError\<close>.
\<close>

theorem missing_wallet_is_a_TypeError:
  "updateAgent (sim_endpoint 21000 1000000007) None ''0xabc'' ''ipfs://ref2'' [1, 137] sim_created =
     (Inl TypeError,
      sim_created\<lparr>log := [EstimateGas Provider (UpdateAgentCall ''0xabc'' ''ipfs://ref2'' [1, 137])]\<rparr>)
   \<and> fst (updateAgent (sim_endpoint 21000 1000000007) None ''0xabc'' ''ipfs://ref2'' [1, 137]
        sim_created) \<noteq> Inl MissingSignerError"
  by (simp add: updateAgent_no_wallet sim_endpoint_def sim_created_def sim_reverts_def)

lemma issued_submit_carries:
  "list_all (carries call) (issued s (snd (submit R w call s)))"
  by (cases rule: submit_cases [of R s w call]) simp_all

lemma issued_submit_enable_permissions:
  "concat (map permission_args (issued s (snd (submit R w (EnableAgentCall agentId p) s))))
     \<in> {[p], [p, p]}"
  by (cases rule: submit_cases [of R s w "EnableAgentCall agentId p"]) simp_all

lemma issued_submit_disable_permissions:
  "concat (map permission_args (issued s (snd (submit R w (DisableAgentCall agentId p) s))))
     \<in> {[p], [p, p]}"
  by (cases rule: submit_cases [of R s w "DisableAgentCall agentId p"]) simp_all

text \<open>
  C6. Whatever wallet is passed, every gas estimate and every submission that
  \<open>enableAgent\<close> and \<open>disableAgent\<close> issue carries the contract call with permission
  argument \<open>1\<close>, and the permission arguments sent in one invocation are \<open>[1]\<close> (the
  estimate alone) or \<open>[1, 1]\<close> (the estimate and the submission): no other permission
  value is ever sent. When either operation returns a hash, a wallet was passed and the
  invocation issued exactly the gas estimate of the call with permission \<open>1\<close>, the
  gas-price query, the submission of the call with permission \<open>1\<close>, and the wait for
  that hash.
\<close>

theorem enable_disable_pass_owner_permission:
  "list_all (carries (EnableAgentCall agentId 1))
     (issued s (snd (enableAgent R fromWallet agentId s)))
   \<and> list_all (carries (DisableAgentCall agentId 1))
     (issued s (snd (disableAgent R fromWallet agentId s)))
   \<and> concat (map permission_args (issued s (snd (enableAgent R fromWallet agentId s))))
       \<in> {[1], [1, 1]}
   \<and> concat (map permission_args (issued s (snd (disableAgent R fromWallet agentId s))))
       \<in> {[1], [1, 1]}
   \<and> (\<forall>h. fst (enableAgent R fromWallet agentId s) = Inr h \<longrightarrow>
        (\<exists>w opts. fromWallet = Some w
           \<and> issued s (snd (enableAgent R fromWallet agentId s)) =
               [EstimateGas (Signer w) (EnableAgentCall agentId 1), GetGasPrice (Signer w),
                SendTransaction (Signer w) (EnableAgentCall agentId 1) opts, Wait h]))
   \<and> (\<forall>h. fst (disableAgent R fromWallet agentId s) = Inr h \<longrightarrow>
        (\<exists>w opts. fromWallet = Some w
           \<and> issued s (snd (disableAgent R fromWallet agentId s)) =
               [EstimateGas (Signer w) (DisableAgentCall agentId 1), GetGasPrice (Signer w),
                SendTransaction (Signer w) (DisableAgentCall agentId 1) opts, Wait h]))"
proof (cases fromWallet)
  case None
  then show ?thesis
    by (simp add: enableAgent_no_wallet disableAgent_no_wallet split: sum.splits)
next
  case (Some w)
  have "\<exists>opts. issued s (snd (submit R w call s)) =
      [EstimateGas (Signer w) call, GetGasPrice (Signer w),
       SendTransaction (Signer w) call opts, Wait h]"
    if "fst (submit R w call s) = Inr h" for call h
    using submit_success [OF that] by blast
  with Some show ?thesis
    using issued_submit_carries [of "EnableAgentCall agentId 1" s R w]
      issued_submit_carries [of "DisableAgentCall agentId 1" s R w]
      issued_submit_enable_permissions [of s R w agentId 1]
      issued_submit_disable_permissions [of s R w agentId 1]
    by (simp add: enableAgent_submit disableAgent_submit)
qed

lemma sim_created_toggle_run:
  assumes "\<bar>G\<bar> < 2 ^ 53" and "\<bar>P\<bar> < 2 ^ 53"
    and "call = EnableAgentCall ''0xabc'' 1 \<or> call = DisableAgentCall ''0xabc'' 1"
  shows "fst (submit (sim_endpoint G P) alice call sim_created) = Inr ''0xa''"
proof -
  let ?R = "sim_endpoint G P"
  let ?c1 = "(chain sim_created)\<lparr>mempool := [(''0xa'', call)]\<rparr>"
  have e: "ep_estimateGas ?R (chain sim_created) (Signer alice) call = Inr G"
    using assms(3) by (auto simp: sim_endpoint_def sim_created_def sim_reverts_def)
  have p: "ep_getGasPrice ?R (chain sim_created) = Inr P"
    by (simp add: sim_endpoint_def)
  have sd: "ep_send ?R (chain sim_created) (Signer alice) call (fee_quote G P) = (Inr ''0xa'', ?c1)"
    by (simp add: sim_endpoint_def sim_created_def sim_hash_def)
  have wt: "ep_wait ?R ?c1 ''0xa'' = (Inr (), sim_apply call ?c1)"
    using assms(3) by (auto simp: sim_endpoint_def sim_created_def sim_reverts_def)
  show ?thesis
    unfolding submit_sent [OF e p assms(1,2) sd wt] by simp
qed

text \<open>
  The theorem at the reference registry: \<open>alice\<close> enables, and disables, the agent
  \<^verbatim>\<open>0xabc\<close> that exists on the chain.
\<close>

theorem enable_disable_pass_owner_permission_witness:
  "fst (enableAgent (sim_endpoint 21000 1000000007) (Some alice) ''0xabc'' sim_created) = Inr ''0xa''
   \<and> (\<exists>opts. issued sim_created
          (snd (enableAgent (sim_endpoint 21000 1000000007) (Some alice) ''0xabc'' sim_created)) =
        [EstimateGas (Signer alice) (EnableAgentCall ''0xabc'' 1), GetGasPrice (Signer alice),
         SendTransaction (Signer alice) (EnableAgentCall ''0xabc'' 1) opts, Wait ''0xa''])
   \<and> fst (disableAgent (sim_endpoint 21000 1000000007) (Some alice) ''0xabc'' sim_created) = Inr ''0xa''
   \<and> (\<exists>opts. issued sim_created
          (snd (disableAgent (sim_endpoint 21000 1000000007) (Some alice) ''0xabc'' sim_created)) =
        [EstimateGas (Signer alice) (DisableAgentCall ''0xabc'' 1), GetGasPrice (Signer alice),
         SendTransaction (Signer alice) (DisableAgentCall ''0xabc'' 1) opts, Wait ''0xa''])"
proof -
  let ?R = "sim_endpoint 21000 1000000007"
  have en: "fst (enableAgent ?R (Some alice) ''0xabc'' sim_created) = Inr ''0xa''"
    unfolding enableAgent_submit by (rule sim_created_toggle_run) simp_all
  have dis: "fst (disableAgent ?R (Some alice) ''0xabc'' sim_created) = Inr ''0xa''"
    unfolding disableAgent_submit by (rule sim_created_toggle_run) simp_all
  from en dis
    enable_disable_pass_owner_permission [of "''0xabc''" sim_created ?R "Some alice"]
  show ?thesis by blast
qed

lemma sim_records_owner: "records_owner (sim_endpoint G P)"
  unfolding records_owner_def
  by (auto simp: sim_endpoint_def sim_apply_def split: option.splits if_splits)

text \<open>
  C4. Every gas estimate and every submission \<open>createAgent\<close> issues carries the
  wallet's own address as the owner argument of the contract call. When \<open>createAgent\<close>
  returns a hash, the transaction mined was that call; so on any endpoint whose
  contract records the owner argument of a mined \<^verbatim>\<open>createAgent\<close> (\<open>records_owner\<close>),
  \<open>agentExists\<close> then returns true and \<open>getAgent\<close> returns a record owned by the
  wallet's address.
\<close>

theorem createAgent_passes_signer_as_owner:
  "(\<exists>n opts h. issued s (snd (createAgent R (Some w) agentId reference chainIds s)) =
       take n [EstimateGas (Signer w) (CreateAgentCall agentId (address w) reference chainIds),
               GetGasPrice (Signer w),
               SendTransaction (Signer w) (CreateAgentCall agentId (address w) reference chainIds) opts,
               Wait h])
   \<and> (\<forall>h s'. createAgent R (Some w) agentId reference chainIds s = (Inr h, s') \<longrightarrow>
        (\<exists>opts. issued s s' =
           [EstimateGas (Signer w) (CreateAgentCall agentId (address w) reference chainIds),
            GetGasPrice (Signer w),
            SendTransaction (Signer w) (CreateAgentCall agentId (address w) reference chainIds) opts,
            Wait h])
        \<and> (records_owner R \<longrightarrow>
             fst (agentExists R agentId s') = Inr True
             \<and> (\<exists>a. fst (getAgent R agentId s') = Inr a \<and> owner a = address w)))"
proof (intro conjI allI impI)
  let ?call = "CreateAgentCall agentId (address w) reference chainIds"
  show "\<exists>n opts h. issued s (snd (createAgent R (Some w) agentId reference chainIds s)) =
       take n [EstimateGas (Signer w) ?call, GetGasPrice (Signer w),
               SendTransaction (Signer w) ?call opts, Wait h]"
    unfolding createAgent_submit by (rule submit_issued)
  fix h s'
  assume run: "createAgent R (Some w) agentId reference chainIds s = (Inr h, s')"
  then have ok: "fst (submit R w ?call s) = Inr h" and s': "snd (submit R w ?call s) = s'"
    by (simp_all add: createAgent_submit)
  from submit_success [OF ok] s'
  obtain opts c1 where
    iss: "issued s s' = [EstimateGas (Signer w) ?call, GetGasPrice (Signer w),
         SendTransaction (Signer w) ?call opts, Wait h]"
    and sent: "ep_send R (chain s) (Signer w) ?call opts = (Inr h, c1)"
    and mined: "ep_wait R c1 h = (Inr (), chain s')"
    by auto
  from iss show "\<exists>opts. issued s s' = [EstimateGas (Signer w) ?call, GetGasPrice (Signer w),
         SendTransaction (Signer w) ?call opts, Wait h]" by blast
  assume "records_owner R"
  with sent mined obtain a where
    a: "ep_getAgent R (chain s') agentId = Inr a" "created a" "owner a = address w"
    unfolding records_owner_def by blast
  from a show "fst (agentExists R agentId s') = Inr True"
    by (simp add: agentExists_def getAgent_def contract_getAgent_def await_def resolve_def)
  from a show "\<exists>a. fst (getAgent R agentId s') = Inr a \<and> owner a = address w"
    by (simp add: getAgent_def contract_getAgent_def)
qed


text \<open>
  The theorem at the reference registry, which records owners: \<open>alice\<close> creates
  \<^verbatim>\<open>0xabc\<close> on the empty chain.
\<close>

theorem createAgent_passes_signer_as_owner_witness:
  "fst (createAgent (sim_endpoint 21000 1000000007) (Some alice) ''0xabc'' ''ipfs://ref1'' [1, 137]
          sim_genesis) = Inr ''0xa''
   \<and> records_owner (sim_endpoint 21000 1000000007)
   \<and> (\<exists>opts. issued sim_genesis (snd (createAgent (sim_endpoint 21000 1000000007) (Some alice)
          ''0xabc'' ''ipfs://ref1'' [1, 137] sim_genesis)) =
           [EstimateGas (Signer alice) (CreateAgentCall ''0xabc'' (address alice) ''ipfs://ref1'' [1, 137]),
            GetGasPrice (Signer alice),
            SendTransaction (Signer alice)
              (CreateAgentCall ''0xabc'' (address alice) ''ipfs://ref1'' [1, 137]) opts,
            Wait ''0xa''])
   \<and> fst (agentExists (sim_endpoint 21000 1000000007) ''0xabc''
          (snd (createAgent (sim_endpoint 21000 1000000007) (Some alice) ''0xabc'' ''ipfs://ref1''
             [1, 137] sim_genesis))) = Inr True
   \<and> (\<exists>a. fst (getAgent (sim_endpoint 21000 1000000007) ''0xabc''
          (snd (createAgent (sim_endpoint 21000 1000000007) (Some alice) ''0xabc'' ''ipfs://ref1''
             [1, 137] sim_genesis))) = Inr a \<and> owner a = address alice)"
proof -
  let ?R = "sim_endpoint 21000 1000000007"
  let ?run = "createAgent ?R (Some alice) ''0xabc'' ''ipfs://ref1'' [1, 137] sim_genesis"
  have "?run = invoke ?R (Some alice) (CreateAgent ''0xabc'' ''ipfs://ref1'' [1, 137]) sim_genesis"
    by (simp add: invoke_def)
  then have ok: "fst ?run = Inr ''0xa''"
    by (simp add: sim_create_run)
  then have run: "?run = (Inr ''0xa'', snd ?run)"
    by (simp add: prod_eq_iff)
  show ?thesis
    using ok run sim_records_owner [of 21000 1000000007]
      createAgent_passes_signer_as_owner [of sim_genesis ?R alice "''0xabc''" "''ipfs://ref1''" "[1, 137]"]
    by blast
qed

subsection \<open>The fee quote\<close>

lemma round_ties_even_err: "\<bar>of_int (round_ties_even x) - x\<bar> \<le> 1 / 2"
proof -
  have "of_int \<lfloor>x\<rfloor> \<le> x" "x < of_int \<lfloor>x\<rfloor> + 1" by linarith+
  then show ?thesis
    by (auto simp: round_ties_even_def Let_def)
qed

lemma round_ties_even_of_int: "round_ties_even (of_int n) = n"
  by (simp add: round_ties_even_def)

lemma pow2_pos: "0 < pow2 e"
  by (simp add: pow2_def)

lemma pow2_add: "pow2 (a + b) = pow2 a * pow2 b"
  by (simp add: pow2_def power_int_add)

lemma pow2_nat: "0 \<le> e \<Longrightarrow> pow2 e = 2 ^ nat e"
  by (simp add: pow2_def power_int_nonneg_exp)

lemma floor_log2_lower:
  assumes "1 \<le> x"
  shows "pow2 (floor_log2 x) \<le> x"
proof -
  let ?n = "\<lfloor>x\<rfloor>"
  from assms have n: "0 < ?n" by linarith
  from n have b1: "1 \<le> bitlen ?n"
    using bitlen_eq_zero_iff [of ?n] bitlen_nonneg [of ?n] by linarith
  have fl: "floor_log2 x = bitlen ?n - 1"
    using assms by (simp add: floor_log2_def)
  from bitlen_bounds [OF n]
  have lo: "(2::int) ^ nat (bitlen ?n - 1) \<le> ?n" by simp
  have "pow2 (floor_log2 x) = of_int (2 ^ nat (bitlen ?n - 1))"
    using b1 by (simp add: fl pow2_nat)
  also have "\<dots> \<le> of_int ?n" using lo by (simp only: of_int_le_iff)
  also have "\<dots> \<le> x" by simp
  finally show ?thesis .
qed

lemma fl64_pos_err:
  assumes "1 \<le> x"
  shows "\<bar>fl64_pos x - x\<bar> \<le> x / 2 ^ 53"
proof -
  define u where "u = pow2 (floor_log2 x - 52)"
  have u: "0 < u" by (simp add: u_def pow2_pos)
  have "pow2 (floor_log2 x) = pow2 ((floor_log2 x - 52) + 52)" by simp
  also have "\<dots> = u * 2 ^ 52"
    unfolding pow2_add u_def by (simp add: pow2_nat)
  finally have "u * 2 ^ 52 \<le> x"
    using floor_log2_lower [OF assms] by simp
  then have ux: "u / 2 \<le> x / 2 ^ 53" by simp
  have "fl64_pos x - x = (of_int (round_ties_even (x / u)) - x / u) * u"
    using u by (simp add: fl64_pos_def Let_def u_def [symmetric] field_simps)
  then have "\<bar>fl64_pos x - x\<bar> = \<bar>of_int (round_ties_even (x / u)) - x / u\<bar> * u"
    using u by (simp add: abs_mult)
  also have "\<dots> \<le> (1 / 2) * u"
    using round_ties_even_err [of "x / u"] u by (intro mult_right_mono) simp_all
  finally show ?thesis using ux by simp
qed

lemma fl64_rel_err:
  assumes "1 \<le> x"
  shows "\<bar>fl64 x - x\<bar> \<le> x / 2 ^ 53"
  using assms fl64_pos_err [OF assms] by (simp add: fl64_def)

lemma fl64_half_integer:
  assumes "2 \<le> m" and "m < 2 ^ 53"
  shows "fl64 (of_int m / 2) = of_int m / 2"
proof -
  let ?x = "of_int m / 2 :: rat"
  have x1: "1 \<le> ?x" using assms by simp
  define e where "e = floor_log2 ?x - 52"
  have "pow2 (floor_log2 ?x) \<le> ?x" by (rule floor_log2_lower [OF x1])
  also have "?x < 2 ^ 52" using assms by simp
  finally have "(2::rat) powi (floor_log2 ?x) < 2 powi 52" by (simp add: pow2_def)
  then have "floor_log2 ?x < 52"
    by (rule power_int_le_imp_less_exp [rotated]) simp_all
  then have e: "e \<le> - 1" by (simp add: e_def)
  define k where "k = nat (- e - 1)"
  have ek: "e = - 1 - int k" using e by (simp add: k_def)
  have u: "pow2 e = 1 / (2 * 2 ^ k)"
    by (simp add: ek pow2_def power_int_diff power_int_minus field_simps)
  have "?x / pow2 e = of_int (m * 2 ^ k)"
    by (simp add: u)
  then have "round_ties_even (?x / pow2 e) = m * 2 ^ k"
    by (simp only: round_ties_even_of_int)
  then have "fl64_pos ?x = ?x"
    by (simp add: fl64_pos_def Let_def e_def [symmetric] u)
  then show ?thesis using x1 by (simp add: fl64_def)
qed

lemma GAS_MULTIPLIER_value: "GAS_MULTIPLIER = 5179139571476070 / 2 ^ 52"
  by code_simp

lemma GAS_PRICE_MULTIPLIER_value: "GAS_PRICE_MULTIPLIER = 3 / 2"
  by code_simp

lemma gas_price_exact:
  assumes "0 < P" and "3 * P < 2 ^ 53"
  shows "Math_round (js_times (of_int P) GAS_PRICE_MULTIPLIER) = round (of_int P * (15 / 10) :: rat)"
proof -
  have "of_int P * (3 / 2 :: rat) = of_int (3 * P) / 2" by simp
  moreover have "fl64 (of_int (3 * P) / 2) = of_int (3 * P) / 2"
    using assms by (intro fl64_half_integer) simp_all
  ultimately have "js_times (of_int P) GAS_PRICE_MULTIPLIER = of_int P * (3 / 2)"
    by (simp only: js_times_def GAS_PRICE_MULTIPLIER_value)
  then have "Math_round (js_times (of_int P) GAS_PRICE_MULTIPLIER) = \<lfloor>of_int P * (3 / 2 :: rat) + 1 / 2\<rfloor>"
    by (simp only: Math_round_def)
  also have "\<dots> = round (of_int P * (15 / 10) :: rat)"
    by (simp add: round_def)
  finally show ?thesis .
qed

lemma gas_limit_error:
  assumes "0 < G" and "39 * G < 2 ^ 53"
  shows "\<bar>js_times (of_int G) GAS_MULTIPLIER - of_int (23 * G) / 20\<bar> < 1 / 20"
proof -
  define p :: rat where "p = of_int G * (5179139571476070 / 2 ^ 52)"
  define q :: rat where "q = of_int (23 * G) / 20"
  have G1: "(1::rat) \<le> of_int G" using assms(1) by simp
  have pq: "q - p = of_int G * (2 / (5 * 2 ^ 52))"
    by (simp add: p_def q_def field_simps)
  have p1: "1 \<le> p"
    using G1 by (simp add: p_def)
  have ple: "p \<le> q" using pq G1 by simp
  have err: "\<bar>fl64 p - p\<bar> \<le> p / 2 ^ 53" by (rule fl64_rel_err [OF p1])
  have "\<bar>fl64 p - q\<bar> \<le> \<bar>fl64 p - p\<bar> + (q - p)" using ple by linarith
  also have "\<dots> \<le> q / 2 ^ 53 + (q - p)" using err ple by simp
  also have "\<dots> = of_int (39 * G) / (20 * 2 ^ 53)"
    by (simp add: pq) (simp add: q_def field_simps)
  also have "\<dots> < 1 / 20"
  proof -
    have "(of_int (39 * G) :: rat) < of_int (2 ^ 53)"
      using assms(2) by (simp only: of_int_less_iff)
    then show ?thesis by simp
  qed
  finally show ?thesis
    by (simp add: js_times_def GAS_MULTIPLIER_value p_def q_def)
qed

lemma gas_limit_nearest:
  assumes "0 < G" and "39 * G < 2 ^ 53"
  shows "\<bar>of_int (Math_round (js_times (of_int G) GAS_MULTIPLIER)) - of_int G * (115 / 100 :: rat)\<bar> \<le> 1 / 2"
    and "G mod 20 \<noteq> 10 \<Longrightarrow>
         Math_round (js_times (of_int G) GAS_MULTIPLIER) = round (of_int G * (115 / 100) :: rat)"
proof -
  define y where "y = js_times (of_int G) GAS_MULTIPLIER"
  define n where "n = Math_round y"
  have y: "\<bar>y - of_int (23 * G) / 20\<bar> < 1 / 20"
    unfolding y_def by (rule gas_limit_error [OF assms])
  have n1: "of_int n \<le> y + 1 / 2" and n2: "y + 1 / 2 < of_int n + 1"
    unfolding n_def Math_round_def by linarith+
  have "(of_int (20 * n) :: rat) < of_int (23 * G + 11)"
    using y n1 by (simp add: field_simps; linarith?)
  then have up: "20 * n < 23 * G + 11" by (simp only: of_int_less_iff)
  have "(of_int (23 * G - 11) :: rat) < of_int (20 * n)"
    using y n2 by (simp add: field_simps; linarith?)
  then have lo: "23 * G - 11 < 20 * n" by (simp only: of_int_less_iff)
  have q: "of_int G * (115 / 100 :: rat) = of_int (23 * G) / 20" by simp
  have "\<bar>of_int (20 * n) - (of_int (23 * G) :: rat)\<bar> \<le> of_int 10"
    using up lo unfolding of_int_diff [symmetric] of_int_abs [symmetric] of_int_le_iff by linarith
  then have "\<bar>of_int n - of_int G * (115 / 100 :: rat)\<bar> \<le> 1 / 2"
    unfolding q by (simp add: field_simps; linarith?)
  then show "\<bar>of_int (Math_round (js_times (of_int G) GAS_MULTIPLIER)) - of_int G * (115 / 100 :: rat)\<bar> \<le> 1 / 2"
    by (simp only: n_def y_def)
  assume "G mod 20 \<noteq> 10"
  have "G mod 20 = 10" if "20 * n = 23 * G + 10"
  proof -
    define k where "k = 7 * n - 8 * G - 4"
    from that have "7 * (20 * n) = 7 * (23 * G + 10)" by (rule arg_cong)
    then have "G = 10 + 20 * k" by (simp add: k_def)
    then have "G mod 20 = (10 + 20 * k) mod 20" by (rule arg_cong)
    then show ?thesis by simp
  qed
  moreover have "G mod 20 = 10" if "20 * n = 23 * G - 10"
  proof -
    define k where "k = 7 * n - 8 * G + 3"
    from that have "7 * (20 * n) = 7 * (23 * G - 10)" by (rule arg_cong)
    then have "G = 10 + 20 * k" by (simp add: k_def)
    then have "G mod 20 = (10 + 20 * k) mod 20" by (rule arg_cong)
    then show ?thesis by simp
  qed
  ultimately have "20 * n \<noteq> 23 * G + 10" "20 * n \<noteq> 23 * G - 10"
    using \<open>G mod 20 \<noteq> 10\<close> by blast+
  with up lo have "20 * n < 23 * G + 10" "23 * G - 10 < 20 * n" by linarith+
  then have "(of_int (20 * n) :: rat) < of_int (23 * G + 10)" "(of_int (23 * G - 10) :: rat) < of_int (20 * n)"
    by (simp_all only: of_int_less_iff)
  then have "of_int n \<le> of_int (23 * G) / 20 + (1 / 2 :: rat)" "of_int (23 * G) / 20 + (1 / 2 :: rat) < of_int n + 1"
    by (simp_all add: field_simps)
  then have "round (of_int (23 * G) / 20 :: rat) = n"
    unfolding round_def by (intro floor_unique) simp_all
  then have "n = round (of_int G * (115 / 100) :: rat)"
    by (simp only: q)
  then show "Math_round (js_times (of_int G) GAS_MULTIPLIER) = round (of_int G * (115 / 100) :: rat)"
    by (simp only: n_def y_def)
qed


lemma submit_submissions:
  assumes "ep_estimateGas R (chain s) (Signer w) call = Inr G"
    and "ep_getGasPrice R (chain s) = Inr P"
    and "\<bar>G\<bar> < 2 ^ 53" and "\<bar>P\<bar> < 2 ^ 53"
  shows "submissions (issued s (snd (submit R w call s))) =
     [SendTransaction (Signer w) call (fee_quote G P)]"
  using assms by (cases rule: submit_cases [of R s w call]) simp_all

text \<open>
  C1, as amended. For every write operation, given a gas estimate \<open>G\<close> with
  \<open>0 < G \<le> 10 ^ 14\<close> and a gas price \<open>P\<close> with \<open>0 < P \<le> 3 * 10 ^ 15\<close>, the one
  transaction submitted carries the options \<open>fee_quote G P\<close>, that is
  \<^verbatim>\<open>Math.round\<close> of the double products \<^verbatim>\<open>G * 1.15\<close> and \<^verbatim>\<open>P * 1.5\<close>. The gas price
  is exactly \<open>round (P \<times> 1.5)\<close>. The gas limit is an integer nearest to \<open>G \<times> 1.15\<close>
  (within one half of it), and it is \<open>round (G \<times> 1.15)\<close> whenever \<open>G \<times> 1.15\<close> is not
  half-way between two integers, that is, whenever \<open>G mod 20 \<noteq> 10\<close>.
\<close>

theorem fee_quote_is_nearest_integer:
  assumes "ep_estimateGas R (chain s) (Signer w) (contract_call_of w x) = Inr G"
    and "ep_getGasPrice R (chain s) = Inr P"
    and "0 < G" and "G \<le> 10 ^ 14" and "0 < P" and "P \<le> 3 * 10 ^ 15"
  shows "submissions (issued s (snd (invoke R (Some w) x s))) =
       [SendTransaction (Signer w) (contract_call_of w x) (fee_quote G P)]
    \<and> gasPrice (fee_quote G P) = round (of_int P * (15 / 10) :: rat)
    \<and> \<bar>of_int (gasLimit (fee_quote G P)) - of_int G * (115 / 100 :: rat)\<bar> \<le> 1 / 2
    \<and> (G mod 20 \<noteq> 10 \<longrightarrow> gasLimit (fee_quote G P) = round (of_int G * (115 / 100) :: rat))"
proof -
  from assms(3,4) have G: "\<bar>G\<bar> < 2 ^ 53" "39 * G < 2 ^ 53" by simp_all
  from assms(5,6) have P: "\<bar>P\<bar> < 2 ^ 53" "3 * P < 2 ^ 53" by simp_all
  have "submissions (issued s (snd (invoke R (Some w) x s))) =
       [SendTransaction (Signer w) (contract_call_of w x) (fee_quote G P)]"
    unfolding invoke_submit by (rule submit_submissions [OF assms(1,2) G(1) P(1)])
  moreover have "gasPrice (fee_quote G P) = round (of_int P * (15 / 10) :: rat)"
    using gas_price_exact [OF assms(5) P(2)] by (simp add: fee_quote_def)
  moreover have "\<bar>of_int (gasLimit (fee_quote G P)) - of_int G * (115 / 100 :: rat)\<bar> \<le> 1 / 2"
    using gas_limit_nearest(1) [OF assms(3) G(2)] by (simp add: fee_quote_def)
  moreover have "gasLimit (fee_quote G P) = round (of_int G * (115 / 100) :: rat)"
    if "G mod 20 \<noteq> 10"
    using gas_limit_nearest(2) [OF assms(3) G(2) that] by (simp add: fee_quote_def)
  ultimately show ?thesis by blast
qed

lemma sim_genesis_quote:
  "ep_estimateGas (sim_endpoint G P) (chain sim_genesis) (Signer alice)
      (contract_call_of alice (CreateAgent ''0xabc'' ''ipfs://ref1'' [1, 137])) = Inr G"
  "ep_getGasPrice (sim_endpoint G P) (chain sim_genesis) = Inr P"
  by (simp_all add: sim_endpoint_def sim_genesis_def sim_reverts_def contract_call_of_def)

text \<open>
  The theorem at the reference registry with a gas estimate of 21000 and a gas price
  of 1000000007.
\<close>

theorem fee_quote_is_nearest_integer_witness:
  "submissions (issued sim_genesis (snd (invoke (sim_endpoint 21000 1000000007) (Some alice)
        (CreateAgent ''0xabc'' ''ipfs://ref1'' [1, 137]) sim_genesis))) =
       [SendTransaction (Signer alice)
          (contract_call_of alice (CreateAgent ''0xabc'' ''ipfs://ref1'' [1, 137]))
          (fee_quote 21000 1000000007)]
    \<and> gasPrice (fee_quote 21000 1000000007) = round (of_int 1000000007 * (15 / 10) :: rat)
    \<and> \<bar>of_int (gasLimit (fee_quote 21000 1000000007)) - of_int 21000 * (115 / 100 :: rat)\<bar> \<le> 1 / 2
    \<and> gasLimit (fee_quote 21000 1000000007) = round (of_int 21000 * (115 / 100) :: rat)"
  using fee_quote_is_nearest_integer [OF sim_genesis_quote, of 21000 1000000007]
  by simp

lemma fee_quote_21010: "fee_quote 21010 1000000007 = \<lparr>gasLimit = 24161, gasPrice = 1500000011\<rparr>"
  by code_simp

lemma fee_quote_large:
  "fee_quote 9007199254740991 3002399751580331 =
     \<lparr>gasLimit = 10358279142952138, gasPrice = 4503599627370496\<rparr>"
  by code_simp

lemma sim_createAgent_run:
  assumes "\<bar>G\<bar> < 2 ^ 53" and "\<bar>P\<bar> < 2 ^ 53"
  shows "createAgent (sim_endpoint G P) (Some alice) ''0xabc'' ''ipfs://ref1'' [1, 137] sim_genesis =
     (Inr ''0xa'',
      \<lparr>chain = \<lparr>agents = [(''0xabc'', \<lparr>created = True, owner = ''0xA11CE'', metadata = ''ipfs://ref1''\<rparr>)],
                disabled = [],
                mempool = [(''0xa'', CreateAgentCall ''0xabc'' ''0xA11CE'' ''ipfs://ref1'' [1, 137])]\<rparr>,
       log = [EstimateGas (Signer alice) (CreateAgentCall ''0xabc'' ''0xA11CE'' ''ipfs://ref1'' [1, 137]),
              GetGasPrice (Signer alice),
              SendTransaction (Signer alice) (CreateAgentCall ''0xabc'' ''0xA11CE'' ''ipfs://ref1'' [1, 137])
                (fee_quote G P),
              Wait ''0xa'']\<rparr>)"
  using sim_create_run [OF assms] by (simp add: invoke_def)

text \<open>
  C1 as stated fails. With a gas estimate of 21010 the exact product is 24161.5 and
  \<open>round\<close> gives 24162, but the double product is just below the half and the
  transaction is submitted with gas limit 24161. Beyond the ranges of the amended
  claim the double product loses integer precision: at \<open>G = 2 ^ 53 - 1\<close> the gas
  limit is 2 below \<open>round (G \<times> 1.15)\<close>, and at \<open>P = 3002399751580331\<close> the gas price
  is 1 below \<open>round (P \<times> 1.5)\<close>.
\<close>

theorem fee_quote_rounds_a_tie_down:
  "submissions (issued sim_genesis (snd (createAgent (sim_endpoint 21010 1000000007) (Some alice)
        ''0xabc'' ''ipfs://ref1'' [1, 137] sim_genesis))) =
       [SendTransaction (Signer alice) (CreateAgentCall ''0xabc'' ''0xA11CE'' ''ipfs://ref1'' [1, 137])
          \<lparr>gasLimit = 24161, gasPrice = 1500000011\<rparr>]
   \<and> round (21010 * (115 / 100) :: rat) = 24162
   \<and> fee_quote 9007199254740991 3002399751580331 =
        \<lparr>gasLimit = 10358279142952138, gasPrice = 4503599627370496\<rparr>
   \<and> round (9007199254740991 * (115 / 100) :: rat) = 10358279142952140
   \<and> round (3002399751580331 * (15 / 10) :: rat) = 4503599627370497"
proof -
  have run: "submissions (issued sim_genesis (snd (createAgent (sim_endpoint 21010 1000000007)
        (Some alice) ''0xabc'' ''ipfs://ref1'' [1, 137] sim_genesis))) =
       [SendTransaction (Signer alice) (CreateAgentCall ''0xabc'' ''0xA11CE'' ''ipfs://ref1'' [1, 137])
          (fee_quote 21010 1000000007)]"
    by (subst sim_createAgent_run) (simp_all add: issued_def sim_genesis_def)
  have "round (21010 * (115 / 100) :: rat) = 24162"
    "round (9007199254740991 * (115 / 100) :: rat) = 10358279142952140"
    "round (3002399751580331 * (15 / 10) :: rat) = 4503599627370497"
    by code_simp+
  with run show ?thesis by (simp only: fee_quote_21010 fee_quote_large)
qed

subsection \<open>The cached chain id\<close>

lemma getFortaConfig_cached: "fortaConfig s = Some c \<Longrightarrow> getFortaConfig H s = (Inr c, s)"
  by (simp add: getFortaConfig_def)

lemma getFortaConfig_success:
  assumes "getFortaConfig H s = (Inr c, s')"
  shows "fortaConfig s' = Some c" and "chainId s' = chainId s"
    and "network_queries s' = network_queries s"
  using assms
  by (auto simp: getFortaConfig_def Let_def split: option.splits sum.splits)

lemma getJsonRpcUrl_frame:
  assumes "getJsonRpcUrl H s = (Inr u, s')"
  shows "chainId s' = chainId s" and "network_queries s' = network_queries s"
  using assms getFortaConfig_success(2,3) [of H s]
  by (auto simp: getJsonRpcUrl_def split: if_splits prod.splits sum.splits)

lemma getJsonRpcUrl_again:
  assumes "getJsonRpcUrl H s = (Inr u, s')"
  shows "getJsonRpcUrl H (s'\<lparr>chainId := x, network_queries := q\<rparr>) =
    (Inr u, s'\<lparr>chainId := x, network_queries := q\<rparr>)"
proof (cases "truthy_string (env H ''JSON_RPC_HOST'')")
  case True
  with assms show ?thesis by (auto simp: getJsonRpcUrl_def)
next
  case False
  with assms obtain c where c: "getFortaConfig H s = (Inr c, s')"
    by (auto simp: getJsonRpcUrl_def split: prod.splits sum.splits if_splits)
  then have "fortaConfig (s'\<lparr>chainId := x, network_queries := q\<rparr>) = Some c"
    by (simp add: getFortaConfig_success(1))
  then have "getFortaConfig H (s'\<lparr>chainId := x, network_queries := q\<rparr>) =
      (Inr c, s'\<lparr>chainId := x, network_queries := q\<rparr>)"
    by (rule getFortaConfig_cached)
  with assms False c show ?thesis
    by (auto simp: getJsonRpcUrl_def split: if_splits)
qed

text \<open>
  A warm module: a truthy chain id \<open>n\<close> is cached and the URL resolves to \<open>url\<close> without
  changing the state.
\<close>

lemma warm_call:
  assumes ne: "\<not> truthy_string (env H ''FORTA_CHAIN_ID'')"
    and n: "truthy_number (Some n)"
    and c: "chainId s = Some n"
    and u: "getJsonRpcUrl H s = (Inr url, s)"
  shows "getChainId H s = (Inr n, s\<lparr>network_queries := network_queries s @ [DetectNetwork url]\<rparr>)"
  using assms by (simp add: getChainId_def getEthersProvider_def)

lemma warm_stays_warm:
  assumes u: "getJsonRpcUrl H s = (Inr url, s)"
  shows "getJsonRpcUrl H (s\<lparr>network_queries := q\<rparr>) = (Inr url, s\<lparr>network_queries := q\<rparr>)"
  using getJsonRpcUrl_again [OF u, where x = "chainId s" and q = q] by simp

lemma warm_calls:
  assumes ne: "\<not> truthy_string (env H ''FORTA_CHAIN_ID'')"
    and n: "truthy_number (Some n)"
    and c: "chainId s = Some n"
    and u: "getJsonRpcUrl H s = (Inr url, s)"
  shows "after_calls k H s = s\<lparr>network_queries := network_queries s @ replicate k (DetectNetwork url)\<rparr>"
  using c u
proof (induction k arbitrary: s)
  case 0
  then show ?case by simp
next
  case (Suc k)
  let ?s = "s\<lparr>network_queries := network_queries s @ [DetectNetwork url]\<rparr>"
  have step: "getChainId H s = (Inr n, ?s)"
    by (rule warm_call [OF ne n Suc.prems])
  have "chainId ?s = Some n" using Suc.prems(1) by simp
  moreover have "getJsonRpcUrl H ?s = (Inr url, ?s)"
    by (rule warm_stays_warm [OF Suc.prems(2)])
  ultimately have "after_calls k H ?s =
      ?s\<lparr>network_queries := network_queries ?s @ replicate k (DetectNetwork url)\<rparr>"
    by (rule Suc.IH)
  then show ?case
    by (simp add: step replicate_app_Cons_same)
qed

lemma getChainId_env:
  assumes "env H ''FORTA_CHAIN_ID'' = Some v" and "v \<noteq> []"
  shows "getChainId H s = (Inr (parseInt H v), s)"
  using assms by (simp add: getChainId_def truthy_string_def)

lemma getChainId_first:
  assumes env: "env H ''FORTA_CHAIN_ID'' = None \<or> env H ''FORTA_CHAIN_ID'' = Some []"
    and cold: "\<not> truthy_number (chainId s)"
    and run: "getChainId H s = (Inr n, s1)"
  shows "chainId s1 = Some n
    \<and> (\<exists>url. getNetwork H url = Inr n
          \<and> network_queries s1 = network_queries s @ [DetectNetwork url, GetNetwork url]
          \<and> (truthy_number (Some n) \<longrightarrow>
               (\<forall>k. getChainId H (after_calls k H s1) =
                  (Inr n, s1\<lparr>network_queries :=
                      network_queries s1 @ replicate (Suc k) (DetectNetwork url)\<rparr>))))"
proof -
  from env have ne: "\<not> truthy_string (env H ''FORTA_CHAIN_ID'')"
    by (auto simp: truthy_string_def)
  from run ne obtain url s' where url: "getJsonRpcUrl H s = (Inr url, s')"
    by (auto simp: getChainId_def getEthersProvider_def split: prod.splits sum.splits)
  from getJsonRpcUrl_frame [OF url] cold
  have cold': "\<not> truthy_number (chainId s')" and q: "network_queries s' = network_queries s"
    by simp_all
  from run ne url cold' have net: "getNetwork H url = Inr n"
    and s1: "s1 = s'\<lparr>chainId := Some n,
        network_queries := network_queries s' @ [DetectNetwork url, GetNetwork url]\<rparr>"
    by (auto simp: getChainId_def getEthersProvider_def split: sum.splits)
  have c1: "chainId s1 = Some n" by (simp add: s1)
  have q1: "network_queries s1 = network_queries s @ [DetectNetwork url, GetNetwork url]"
    by (simp add: s1 q)
  have u1: "getJsonRpcUrl H s1 = (Inr url, s1)"
    unfolding s1 by (rule getJsonRpcUrl_again [OF url])
  have later: "getChainId H (after_calls k H s1) =
      (Inr n, s1\<lparr>network_queries := network_queries s1 @ replicate (Suc k) (DetectNetwork url)\<rparr>)"
    if n: "truthy_number (Some n)" for k
  proof -
    let ?sk = "s1\<lparr>network_queries := network_queries s1 @ replicate k (DetectNetwork url)\<rparr>"
    have sk: "after_calls k H s1 = ?sk"
      by (rule warm_calls [OF ne n c1 u1])
    have "getChainId H ?sk =
        (Inr n, ?sk\<lparr>network_queries := network_queries ?sk @ [DetectNetwork url]\<rparr>)"
      by (rule warm_call [OF ne n]) (simp_all add: c1 warm_stays_warm [OF u1])
    then show ?thesis
      by (simp add: sk replicate_append_same)
  qed
  from c1 q1 net later show ?thesis by blast
qed

text \<open>
  C9, as amended. When \<^verbatim>\<open>FORTA_CHAIN_ID\<close> is unset or empty and no truthy chain id is
  cached, a successful \<open>getChainId\<close> call constructs a provider, awaits its
  \<^verbatim>\<open>getNetwork()\<close> once and stores the chain id it reports in the module-level
  variable. If that id is truthy (an integer other than zero), every later call
  returns the same value from the cache and never awaits \<^verbatim>\<open>getNetwork()\<close> again; it
  does construct a new provider each time, so each later call still adds one network
  detection by the library and nothing else. When \<^verbatim>\<open>FORTA_CHAIN_ID\<close> is a non-empty
  string, \<^verbatim>\<open>parseInt\<close> of it is returned on every call, whatever the cache holds, and
  the state is left untouched: no provider is constructed.
\<close>

theorem getChainId_cache:
  "(\<forall>n s1. (env H ''FORTA_CHAIN_ID'' = None \<or> env H ''FORTA_CHAIN_ID'' = Some [])
        \<and> \<not> truthy_number (chainId s) \<and> getChainId H s = (Inr n, s1) \<longrightarrow>
      chainId s1 = Some n
      \<and> (\<exists>url. getNetwork H url = Inr n
            \<and> network_queries s1 = network_queries s @ [DetectNetwork url, GetNetwork url]
            \<and> (truthy_number (Some n) \<longrightarrow>
                 (\<forall>k. getChainId H (after_calls k H s1) =
                    (Inr n, s1\<lparr>network_queries :=
                        network_queries s1 @ replicate (Suc k) (DetectNetwork url)\<rparr>)))))
   \<and> (\<forall>v. env H ''FORTA_CHAIN_ID'' = Some v \<and> v \<noteq> [] \<longrightarrow>
        getChainId H s = (Inr (parseInt H v), s))"
  using getChainId_first [of H s] getChainId_env [of H _ s] by blast

lemma dev_host_first:
  assumes "map_of bs ''FORTA_CHAIN_ID'' = None \<or> map_of bs ''FORTA_CHAIN_ID'' = Some []"
    and "map_of bs ''JSON_RPC_HOST'' = None"
  shows "getChainId (dev_host bs n) fresh_module =
     (Inr (Finite n),
      \<lparr>chainId = Some (Finite n), fortaConfig = Some empty_config,
       network_queries = [DetectNetwork ''https://cloudflare-eth.com/'',
                          GetNetwork ''https://cloudflare-eth.com/'']\<rparr>)"
  using assms
  by (auto simp: getChainId_def getEthersProvider_def getJsonRpcUrl_def getFortaConfig_def
      dev_host_def fresh_module_def truthy_string_def truthy_number_def empty_config_def Let_def)

lemma dev_host_second:
  assumes "map_of bs ''FORTA_CHAIN_ID'' = None \<or> map_of bs ''FORTA_CHAIN_ID'' = Some []"
    and "map_of bs ''JSON_RPC_HOST'' = None"
  shows "getChainId (dev_host bs n)
       \<lparr>chainId = Some (Finite n), fortaConfig = Some empty_config, network_queries = q\<rparr> =
     (Inr (Finite n),
      \<lparr>chainId = Some (Finite n), fortaConfig = Some empty_config,
       network_queries = q @ (if n = 0
         then [DetectNetwork ''https://cloudflare-eth.com/'', GetNetwork ''https://cloudflare-eth.com/'']
         else [DetectNetwork ''https://cloudflare-eth.com/''])\<rparr>)"
  using assms
  by (auto simp: getChainId_def getEthersProvider_def getJsonRpcUrl_def getFortaConfig_def
      dev_host_def truthy_string_def truthy_number_def empty_config_def Let_def)

text \<open>
  The theorem on a developer's host whose network reports chain id 137: the first call,
  and the third call after it; and on a host with \<^verbatim>\<open>FORTA_CHAIN_ID=137\<close>.
\<close>

theorem getChainId_cache_witness:
  "getChainId (dev_host [] 137) fresh_module =
     (Inr (Finite 137),
      \<lparr>chainId = Some (Finite 137), fortaConfig = Some empty_config,
       network_queries = [DetectNetwork ''https://cloudflare-eth.com/'',
                          GetNetwork ''https://cloudflare-eth.com/'']\<rparr>)
   \<and> getChainId (dev_host [] 137) (after_calls 2 (dev_host [] 137)
       \<lparr>chainId = Some (Finite 137), fortaConfig = Some empty_config,
        network_queries = [DetectNetwork ''https://cloudflare-eth.com/'',
                           GetNetwork ''https://cloudflare-eth.com/'']\<rparr>) =
     (Inr (Finite 137),
      \<lparr>chainId = Some (Finite 137), fortaConfig = Some empty_config,
       network_queries = [DetectNetwork ''https://cloudflare-eth.com/'',
                          GetNetwork ''https://cloudflare-eth.com/'',
                          DetectNetwork ''https://cloudflare-eth.com/'',
                          DetectNetwork ''https://cloudflare-eth.com/'',
                          DetectNetwork ''https://cloudflare-eth.com/'']\<rparr>)
   \<and> getChainId (dev_host [(''FORTA_CHAIN_ID'', ''137'')] 1) fresh_module =
     (Inr (Finite 137), fresh_module)"
proof -
  let ?H = "dev_host [] 137"
  let ?url = "''https://cloudflare-eth.com/''"
  let ?s1 = "\<lparr>chainId = Some (Finite 137), fortaConfig = Some empty_config,
       network_queries = [DetectNetwork ?url, GetNetwork ?url]\<rparr>"
  have first: "getChainId ?H fresh_module = (Inr (Finite 137), ?s1)"
    by (rule dev_host_first) simp_all
  have unset: "env ?H ''FORTA_CHAIN_ID'' = None" and cold: "\<not> truthy_number (chainId fresh_module)"
    and warm: "truthy_number (Some (Finite 137))"
    by (simp_all add: dev_host_def fresh_module_def truthy_number_def)
  from getChainId_cache [of ?H fresh_module] first unset cold warm
  obtain url where q: "network_queries ?s1 = network_queries fresh_module @ [DetectNetwork url, GetNetwork url]"
    and later: "\<And>k. getChainId ?H (after_calls k ?H ?s1) =
        (Inr (Finite 137),
         ?s1\<lparr>network_queries := network_queries ?s1 @ replicate (Suc k) (DetectNetwork url)\<rparr>)"
    by blast
  from q have "url = ?url" by (simp add: fresh_module_def)
  with later [of 2] have third: "getChainId ?H (after_calls 2 ?H ?s1) =
     (Inr (Finite 137),
      \<lparr>chainId = Some (Finite 137), fortaConfig = Some empty_config,
       network_queries = [DetectNetwork ?url, GetNetwork ?url,
          DetectNetwork ?url, DetectNetwork ?url, DetectNetwork ?url]\<rparr>)"
    by (simp add: numeral_2_eq_2)
  have set: "env (dev_host [(''FORTA_CHAIN_ID'', ''137'')] 1) ''FORTA_CHAIN_ID'' = Some ''137''"
    and parsed: "parseInt (dev_host [(''FORTA_CHAIN_ID'', ''137'')] 1) ''137'' = Finite 137"
    by (simp_all add: dev_host_def parse_digits_def)
  have "getChainId (dev_host [(''FORTA_CHAIN_ID'', ''137'')] 1) fresh_module =
     (Inr (Finite 137), fresh_module)"
    using getChainId_cache [of "dev_host [(''FORTA_CHAIN_ID'', ''137'')] 1" fresh_module] set parsed
    by fastforce
  with first third show ?thesis by blast
qed

text \<open>
  C9 as stated fails. A call that finds a non-zero chain id in the cache returns it,
  but first constructs a new provider, whose constructor asks the network for its chain
  id: the network is queried again on every call. With \<^verbatim>\<open>FORTA_CHAIN_ID\<close> set to the
  empty string the variable is set, yet the call asks the network and writes the cache
  instead of returning the parsed value. With a network that reports chain id 0, the
  cached 0 does not stop the second call from awaiting \<^verbatim>\<open>getNetwork()\<close> again.
\<close>

theorem getChainId_queries_again:
  "getChainId (dev_host [] 137)
       \<lparr>chainId = Some (Finite 137), fortaConfig = Some empty_config,
        network_queries = [DetectNetwork ''https://cloudflare-eth.com/'',
                           GetNetwork ''https://cloudflare-eth.com/'']\<rparr> =
     (Inr (Finite 137),
      \<lparr>chainId = Some (Finite 137), fortaConfig = Some empty_config,
       network_queries = [DetectNetwork ''https://cloudflare-eth.com/'',
                          GetNetwork ''https://cloudflare-eth.com/'',
                          DetectNetwork ''https://cloudflare-eth.com/'']\<rparr>)
   \<and> getChainId (dev_host [(''FORTA_CHAIN_ID'', [])] 137) fresh_module =
     (Inr (Finite 137),
      \<lparr>chainId = Some (Finite 137), fortaConfig = Some empty_config,
       network_queries = [DetectNetwork ''https://cloudflare-eth.com/'',
                          GetNetwork ''https://cloudflare-eth.com/'']\<rparr>)
   \<and> parseInt (dev_host [(''FORTA_CHAIN_ID'', [])] 137) [] = NaN
   \<and> getChainId (dev_host [] 0) fresh_module =
     (Inr (Finite 0),
      \<lparr>chainId = Some (Finite 0), fortaConfig = Some empty_config,
       network_queries = [DetectNetwork ''https://cloudflare-eth.com/'',
                          GetNetwork ''https://cloudflare-eth.com/'']\<rparr>)
   \<and> getChainId (dev_host [] 0)
       \<lparr>chainId = Some (Finite 0), fortaConfig = Some empty_config,
        network_queries = [DetectNetwork ''https://cloudflare-eth.com/'',
                           GetNetwork ''https://cloudflare-eth.com/'']\<rparr> =
     (Inr (Finite 0),
      \<lparr>chainId = Some (Finite 0), fortaConfig = Some empty_config,
       network_queries = [DetectNetwork ''https://cloudflare-eth.com/'',
                          GetNetwork ''https://cloudflare-eth.com/'',
                          DetectNetwork ''https://cloudflare-eth.com/'',
                          GetNetwork ''https://cloudflare-eth.com/'']\<rparr>)"
proof -
  have "getChainId (dev_host [] 137)
       \<lparr>chainId = Some (Finite 137), fortaConfig = Some empty_config,
        network_queries = [DetectNetwork ''https://cloudflare-eth.com/'',
                           GetNetwork ''https://cloudflare-eth.com/'']\<rparr> =
     (Inr (Finite 137),
      \<lparr>chainId = Some (Finite 137), fortaConfig = Some empty_config,
       network_queries = [DetectNetwork ''https://cloudflare-eth.com/'',
                          GetNetwork ''https://cloudflare-eth.com/'',
                          DetectNetwork ''https://cloudflare-eth.com/'']\<rparr>)"
    by (subst dev_host_second) simp_all
  moreover have "getChainId (dev_host [(''FORTA_CHAIN_ID'', [])] 137) fresh_module =
     (Inr (Finite 137),
      \<lparr>chainId = Some (Finite 137), fortaConfig = Some empty_config,
       network_queries = [DetectNetwork ''https://cloudflare-eth.com/'',
                          GetNetwork ''https://cloudflare-eth.com/'']\<rparr>)"
    by (rule dev_host_first) simp_all
  moreover have "parseInt (dev_host [(''FORTA_CHAIN_ID'', [])] 137) [] = NaN"
    by (simp add: dev_host_def parse_digits_def)
  moreover have "getChainId (dev_host [] 0) fresh_module =
     (Inr (Finite 0),
      \<lparr>chainId = Some (Finite 0), fortaConfig = Some empty_config,
       network_queries = [DetectNetwork ''https://cloudflare-eth.com/'',
                          GetNetwork ''https://cloudflare-eth.com/'']\<rparr>)"
    by (rule dev_host_first) simp_all
  moreover have "getChainId (dev_host [] 0)
       \<lparr>chainId = Some (Finite 0), fortaConfig = Some empty_config,
        network_queries = [DetectNetwork ''https://cloudflare-eth.com/'',
                           GetNetwork ''https://cloudflare-eth.com/'']\<rparr> =
     (Inr (Finite 0),
      \<lparr>chainId = Some (Finite 0), fortaConfig = Some empty_config,
       network_queries = [DetectNetwork ''https://cloudflare-eth.com/'',
                          GetNetwork ''https://cloudflare-eth.com/'',
                          DetectNetwork ''https://cloudflare-eth.com/'',
                          GetNetwork ''https://cloudflare-eth.com/'']\<rparr>)"
    by (subst dev_host_second) simp_all
  ultimately show ?thesis by blast
qed

end
